theory Spec2Isabelle
  imports Complex_Main "HOL-Library.AList"
begin

section \<open>Python values\<close>

text \<open>
  The AI suggestion pipeline of \<^verbatim>\<open>ai_module.py\<close> (class \<^verbatim>\<open>AITaskManagement\<close>) and the
  three lines of \<^verbatim>\<open>views.py\<close> that consume its result.

  A JSON number decodes to a Python \<^verbatim>\<open>int\<close> or \<^verbatim>\<open>float\<close>; \<^verbatim>\<open>json.loads\<close> also yields
  the floats \<^verbatim>\<open>inf\<close>, \<^verbatim>\<open>-inf\<close> and \<^verbatim>\<open>nan\<close> (from \<^verbatim>\<open>1e999\<close>, \<^verbatim>\<open>Infinity\<close>, \<^verbatim>\<open>NaN\<close>).
  A finite float is a rational number. A \<open>string\<close> is a Python \<^verbatim>\<open>str\<close>, one \<open>char\<close> per
  character of it.
\<close>

datatype py_error =
    ValueError | TypeError | OverflowError | KeyError | AttributeError | UnboundLocalError

datatype pyfloat = Finite rat | PosInf | NegInf | NaN

datatype json =
    JNull
  | JBool bool
  | JInt int
  | JFloat pyfloat
  | JStr string
  | JList "json list"
  | JObject "(string \<times> json) list"

record datetime =
  year :: nat
  month :: nat
  day :: nat
  hour :: nat
  minute :: nat
  second :: nat
  microsecond :: nat

text \<open>
  The values of the \<^verbatim>\<open>suggestions\<close> dict while it is post-processed: decoded JSON, the
  \<^verbatim>\<open>datetime\<close> stored under \<^verbatim>\<open>deadline\<close>, and (in the returned mapping) the dict itself
  under \<^verbatim>\<open>ai_raw_response\<close>.
\<close>

datatype pyval =
    Json json
  | Datetime datetime
  | Dict "(string \<times> pyval) list"

subsection \<open>Dictionaries\<close>

text \<open>
  A \<^verbatim>\<open>dict\<close> with \<^verbatim>\<open>str\<close> keys is an association list in insertion order:
  \<^verbatim>\<open>d.get(k, v)\<close>, \<^verbatim>\<open>k in d\<close>, \<^verbatim>\<open>d[k]\<close> (KeyError on a missing key) and \<^verbatim>\<open>d[k] = v\<close>
  (replace in place, or append).
\<close>

type_synonym 'v dict = "(string \<times> 'v) list"

definition dict_get :: "'v dict \<Rightarrow> string \<Rightarrow> 'v \<Rightarrow> 'v" where
  "dict_get d k dflt = (case map_of d k of None \<Rightarrow> dflt | Some v \<Rightarrow> v)"

definition dict_in :: "string \<Rightarrow> 'v dict \<Rightarrow> bool" where
  "dict_in k d = (case map_of d k of None \<Rightarrow> False | Some v \<Rightarrow> True)"

definition dict_item :: "'v dict \<Rightarrow> string \<Rightarrow> py_error + 'v" where
  "dict_item d k = (case map_of d k of None \<Rightarrow> Inl KeyError | Some v \<Rightarrow> Inr v)"

definition dict_set :: "string \<Rightarrow> 'v \<Rightarrow> 'v dict \<Rightarrow> 'v dict" where
  "dict_set k v d = AList.update k v d"

definition keys :: "'v dict \<Rightarrow> string list" where
  "keys d = map fst d"

subsection \<open>Builtins on values\<close>

text \<open>Truthiness (\<^verbatim>\<open>if x:\<close>). A float is false only when it is zero; \<^verbatim>\<open>nan\<close> is true.\<close>

definition truthy :: "pyval \<Rightarrow> bool" where
  "truthy v =
     (case v of
        Json j \<Rightarrow>
          (case j of
             JNull \<Rightarrow> False
           | JBool b \<Rightarrow> b
           | JInt i \<Rightarrow> i \<noteq> 0
           | JFloat f \<Rightarrow> (case f of Finite q \<Rightarrow> q \<noteq> 0 | PosInf \<Rightarrow> True | NegInf \<Rightarrow> True | NaN \<Rightarrow> True)
           | JStr s \<Rightarrow> s \<noteq> []
           | JList xs \<Rightarrow> xs \<noteq> []
           | JObject kvs \<Rightarrow> kvs \<noteq> [])
      | Datetime t \<Rightarrow> True
      | Dict d \<Rightarrow> d \<noteq> [])"

text \<open>\<^verbatim>\<open>int(x)\<close> on a float truncates towards zero.\<close>

definition trunc :: "rat \<Rightarrow> int" where
  "trunc q = (if 0 \<le> q then \<lfloor>q\<rfloor> else \<lceil>q\<rceil>)"

text \<open>
  \<^verbatim>\<open>int(x)\<close>. The argument \<open>int_str\<close> is the builtin on a \<^verbatim>\<open>str\<close> (\<open>None\<close> when it raises
  ValueError). \<^verbatim>\<open>int\<close> of an infinite float raises OverflowError, of \<^verbatim>\<open>nan\<close> ValueError, of
  \<^verbatim>\<open>None\<close>, a list, a dict or a datetime TypeError.
\<close>

definition py_int :: "(string \<Rightarrow> int option) \<Rightarrow> pyval \<Rightarrow> py_error + int" where
  "py_int int_str v =
     (case v of
        Json j \<Rightarrow>
          (case j of
             JNull \<Rightarrow> Inl TypeError
           | JBool b \<Rightarrow> Inr (if b then 1 else 0)
           | JInt i \<Rightarrow> Inr i
           | JFloat f \<Rightarrow>
               (case f of
                  Finite q \<Rightarrow> Inr (trunc q)
                | PosInf \<Rightarrow> Inl OverflowError
                | NegInf \<Rightarrow> Inl OverflowError
                | NaN \<Rightarrow> Inl ValueError)
           | JStr s \<Rightarrow> (case int_str s of None \<Rightarrow> Inl ValueError | Some i \<Rightarrow> Inr i)
           | JList xs \<Rightarrow> Inl TypeError
           | JObject kvs \<Rightarrow> Inl TypeError)
      | Datetime t \<Rightarrow> Inl TypeError
      | Dict d \<Rightarrow> Inl TypeError)"

text \<open>\<^verbatim>\<open>isinstance(x, list)\<close>.\<close>

definition is_list :: "pyval \<Rightarrow> bool" where
  "is_list v = (case v of Json (JList xs) \<Rightarrow> True | _ \<Rightarrow> False)"

subsection \<open>Dates\<close>

text \<open>
  \<^verbatim>\<open>datetime.now() + timedelta(days=3)\<close> moves the date three days on in the Gregorian
  calendar and keeps the time of day; the year is unbounded here.
\<close>

definition is_leap :: "nat \<Rightarrow> bool" where
  "is_leap y = (if y mod 400 = 0 then True else if y mod 100 = 0 then False else y mod 4 = 0)"

definition days_in_month :: "nat \<Rightarrow> nat \<Rightarrow> nat" where
  "days_in_month y m =
     (if m = 2 then (if is_leap y then 29 else 28)
      else if m = 4 \<or> m = 6 \<or> m = 9 \<or> m = 11 then 30
      else 31)"

definition next_day :: "datetime \<Rightarrow> datetime" where
  "next_day t =
     (if day t < days_in_month (year t) (month t) then t\<lparr>day := day t + 1\<rparr>
      else if month t < 12 then t\<lparr>month := month t + 1, day := 1\<rparr>
      else t\<lparr>year := year t + 1, month := 1, day := 1\<rparr>)"

definition plus_3_days :: "datetime \<Rightarrow> datetime" where
  "plus_3_days t = next_day (next_day (next_day t))"

text \<open>Lines 187--189: \<^verbatim>\<open>(now + timedelta(days=3)).replace(hour=17, minute=0, second=0, microsecond=0)\<close>.\<close>

definition default_deadline :: "datetime \<Rightarrow> datetime" where
  "default_deadline now_t = (plus_3_days now_t)\<lparr>hour := 17, minute := 0, second := 0, microsecond := 0\<rparr>"

section \<open>The world outside the module\<close>

text \<open>
  A request to \<^verbatim>\<open>client.chat.completions.create\<close> and what comes back: an exception (its
  class, as far as the handlers of \<^verbatim>\<open>_call_llm\<close> tell classes apart, and its \<^verbatim>\<open>str(e)\<close>), or
  a completion whose \<^verbatim>\<open>choices[i].message.content\<close> is a \<^verbatim>\<open>str\<close> or \<^verbatim>\<open>None\<close>. An exception
  is a \<^verbatim>\<open>json.JSONDecodeError\<close> or any other \<^verbatim>\<open>Exception\<close>. The two requests of one
  \<^verbatim>\<open>get_task_suggestions\<close> differ (model and token budget), so a backend that is a function
  of the request can answer them independently.
\<close>

record request =
  model :: string
  messages :: "(string \<times> string) list"
  response_format :: string
  temperature :: rat
  max_tokens :: int

datatype exc = JSONDecodeError | OtherException

datatype response = Raised exc string | Completion "string option list"

type_synonym backend = "request \<Rightarrow> response"

text \<open>What a run leaves behind: the lines printed and the requests sent, oldest first.\<close>

record io =
  stdout :: "string list"
  requests :: "request list"

definition py_print :: "string \<Rightarrow> io \<Rightarrow> io" where
  "py_print line s = s\<lparr>stdout := stdout s @ [line]\<rparr>"

text \<open>
  The library functions and the environment the module reads, as parameters:
  \<^verbatim>\<open>os.getenv\<close>, the \<^verbatim>\<open>OpenAI(base_url, api_key)\<close> constructor, \<^verbatim>\<open>json.loads\<close> (\<open>Inl m\<close>
  is a JSONDecodeError whose \<^verbatim>\<open>str\<close> is \<open>m\<close>, \<open>Inr v\<close> the decoded value, an object or
  any other JSON value), \<^verbatim>\<open>json.dumps\<close>, \<^verbatim>\<open>str\<close> on a value that is not a
  \<^verbatim>\<open>str\<close>, \<^verbatim>\<open>int\<close> on a \<^verbatim>\<open>str\<close>, \<^verbatim>\<open>datetime.strptime(s, '%Y-%m-%d %H:%M:%S')\<close> (\<open>None\<close> is
  ValueError) and \<^verbatim>\<open>datetime.now()\<close>.
\<close>

record env =
  getenv :: "string \<Rightarrow> string option"
  OpenAI :: "string option \<Rightarrow> string option \<Rightarrow> backend"
  json_loads :: "string \<Rightarrow> string + json"
  json_dumps :: "json dict \<Rightarrow> string"
  py_str :: "json \<Rightarrow> string"
  int_str :: "string \<Rightarrow> int option"
  strptime :: "string \<Rightarrow> datetime option"
  now :: datetime

text \<open>An f-string field \<^verbatim>\<open>{x}\<close>: a \<^verbatim>\<open>str\<close> as it is, anything else through \<^verbatim>\<open>str\<close>.\<close>

definition fmt :: "env \<Rightarrow> json \<Rightarrow> string" where
  "fmt e v = (case v of JStr s \<Rightarrow> s | _ \<Rightarrow> py_str e v)"

definition dq :: string where
  "dq = [CHR 0x22]"

definition sq :: string where
  "sq = [CHR 0x27]"

section \<open>The adapter: \<^verbatim>\<open>AITaskManagement\<close>\<close>

text \<open>
  \<^verbatim>\<open>__init__\<close> raises ValueError for any choice but the three below, so an object holds one
  of them. \<^verbatim>\<open>self.client\<close> is an OpenAI client or \<^verbatim>\<open>None\<close>.
\<close>

datatype api = openai | claude | lm_studio

definition api_of :: "string \<Rightarrow> api option" where
  "api_of choice =
     (if choice = ''openai'' then Some openai
      else if choice = ''claude'' then Some claude
      else if choice = ''lm_studio'' then Some lm_studio
      else None)"

record AITaskManagement =
  api_choice :: api
  client :: "backend option"

text \<open>\<^verbatim>\<open>not api_key\<close>: the variable is unset or empty.\<close>

definition no_key :: "string option \<Rightarrow> bool" where
  "no_key k = (case k of None \<Rightarrow> True | Some v \<Rightarrow> v = [])"

text \<open>Lines 25--50, for a valid choice.\<close>

definition initialize_llm_client :: "env \<Rightarrow> api \<Rightarrow> io \<Rightarrow> backend option \<times> io" where
  "initialize_llm_client e a s =
     (case a of
        openai \<Rightarrow>
          (let api_key = getenv e ''OPENAI_API_KEY'';
               s1 = (if no_key api_key
                     then py_print ''Warning: OPENAI_API_KEY not found in environment variables. OpenAI client may not work.'' s
                     else s)
           in (Some (OpenAI e None api_key), s1))
      | claude \<Rightarrow>
          (let api_key = getenv e ''ANTHROPIC_API_KEY'';
               s1 = (if no_key api_key
                     then py_print ''Warning: ANTHROPIC_API_KEY not found in environment variables. Claude client may not work.'' s
                     else s);
               s2 = py_print (''Claude client not fully implemented in this example, requires '' @ sq @ ''anthropic'' @ sq @ '' package and specific API calls.'') s1
           in (None, s2))
      | lm_studio \<Rightarrow>
          (let lm_studio_base_url =
                 (case getenv e ''LM_STUDIO_BASE_URL'' of
                    None \<Rightarrow> ''http://localhost:1234/v1''
                  | Some u \<Rightarrow> u)
           in (Some (OpenAI e (Some lm_studio_base_url) (Some ''lm-studio-key'')), s)))"

text \<open>Lines 17--23 with the \<^verbatim>\<open>else\<close> of line 49.\<close>

definition init :: "env \<Rightarrow> string \<Rightarrow> io \<Rightarrow> (py_error + AITaskManagement) \<times> io" where
  "init e choice s =
     (case api_of choice of
        None \<Rightarrow> (Inl ValueError, s)
      | Some a \<Rightarrow>
          (case initialize_llm_client e a s of
             (c, s1) \<Rightarrow> (Inr \<lparr>api_choice = a, client = c\<rparr>, s1)))"

text \<open>The request of lines 63--72.\<close>

definition chat_request :: "string \<Rightarrow> string \<Rightarrow> int \<Rightarrow> request" where
  "chat_request model_name prompt max_toks =
     \<lparr>model = model_name,
      messages =
        [(''system'', ''You are a smart task management assistant. Provide responses in JSON format.''),
         (''user'', prompt)],
      response_format = ''json_object'',
      temperature = 7 / 10,
      max_tokens = max_toks\<rparr>"

text \<open>
  Lines 52--94, \<^verbatim>\<open>_call_llm\<close>. The value returned is whatever \<^verbatim>\<open>json.loads\<close> gives (line
  74), or one of the dicts of lines 60, 88, 91 and 94.

  Line 92 catches every \<^verbatim>\<open>Exception\<close> that is not a JSONDecodeError: the backend's, the
  IndexError of an empty \<^verbatim>\<open>choices\<close>, the TypeError of \<^verbatim>\<open>json.loads(None)\<close>.

  Line 89 catches a JSONDecodeError. When \<^verbatim>\<open>json.loads\<close> raised it, \<^verbatim>\<open>response\<close> is bound and
  line 90 prints. When \<^verbatim>\<open>create\<close> raised it, \<^verbatim>\<open>response\<close> was never assigned: the f-string
  of line 90 evaluates \<^verbatim>\<open>response\<close> and raises UnboundLocalError inside the handler, before
  anything is printed, and the error leaves \<^verbatim>\<open>_call_llm\<close>.
\<close>

definition caught :: "string \<Rightarrow> io \<Rightarrow> (py_error + json) \<times> io" where
  "caught msg s = (Inr (JObject [(''error'', JStr msg)]), py_print (''Error calling LLM: '' @ msg) s)"

definition call_llm ::
  "env \<Rightarrow> AITaskManagement \<Rightarrow> string \<Rightarrow> string \<Rightarrow> int \<Rightarrow> io \<Rightarrow> (py_error + json) \<times> io" where
  "call_llm e self prompt model_name max_toks s =
     (case client self of
        None \<Rightarrow> (Inr (JObject []), py_print ''LLM client not initialized. Cannot make API call.'' s)
      | Some create \<Rightarrow>
          (if api_choice self = openai \<or> api_choice self = lm_studio then
             (let req = chat_request model_name prompt max_toks;
                  s1 = s\<lparr>requests := requests s @ [req]\<rparr>
              in (case create req of
                    Raised x msg \<Rightarrow>
                      (case x of
                         JSONDecodeError \<Rightarrow> (Inl UnboundLocalError, s1)
                       | OtherException \<Rightarrow> caught msg s1)
                  | Completion choices \<Rightarrow>
                      (case choices of
                         [] \<Rightarrow> caught ''list index out of range'' s1
                       | c # cs \<Rightarrow>
                           (case c of
                              None \<Rightarrow> caught ''the JSON object must be str, bytes or bytearray, not NoneType'' s1
                            | Some raw \<Rightarrow>
                                (case json_loads e raw of
                                   Inl m \<Rightarrow>
                                     (Inr (JObject [(''error'', JStr ''JSON decoding failed''), (''details'', JStr m)]),
                                      py_print (''Error decoding JSON from LLM response: '' @ m @ ''. Raw content: '' @ raw) s1)
                                 | Inr v \<Rightarrow> (Inr v, s1))))))
           else (Inr (JObject []), py_print ''Claude API call not implemented in this example.'' s)))"

section \<open>The orchestrator: \<^verbatim>\<open>get_task_suggestions\<close>\<close>

subsection \<open>Context summary (lines 122--131)\<close>

text \<open>
  A context entry as the caller passes it
  (\<^verbatim>\<open>ContextEntry.objects...values('content', 'source_type')\<close>).
\<close>

record context_entry =
  content :: string
  source_type :: string

text \<open>\<^verbatim>\<open>sep.join(xs)\<close>.\<close>

fun join :: "string \<Rightarrow> string list \<Rightarrow> string" where
  "join sep [] = []"
| "join sep [x] = x"
| "join sep (x # y # ys) = x @ sep @ join sep (y # ys)"

text \<open>Line 125: one f-string per entry, joined by newlines.\<close>

definition entry_line :: "context_entry \<Rightarrow> string" where
  "entry_line c = ''Source: '' @ source_type c @ '': '' @ content c"

definition combined_context :: "context_entry list \<Rightarrow> string" where
  "combined_context daily_context_data = join ''\<newline>'' (map entry_line daily_context_data)"

text \<open>Lines 126--129.\<close>

definition context_summary_prompt :: "string \<Rightarrow> string" where
  "context_summary_prompt combined =
     ''Summarize the following daily context in a concise manner, highlighting any urgent matters, commitments, or schedule conflicts.\<newline>''
       @ ''            Context:\<newline>''
       @ ''            '' @ combined @ ''\<newline>''
       @ ''            ''"

text \<open>
  \<^verbatim>\<open>x.get(k, v)\<close> on a decoded value: a dict looks the key up; \<^verbatim>\<open>None\<close>, a bool, a number, a
  \<^verbatim>\<open>str\<close> and a list have no attribute \<^verbatim>\<open>get\<close>.
\<close>

definition py_get :: "json \<Rightarrow> string \<Rightarrow> json \<Rightarrow> py_error + json" where
  "py_get x k dflt = (case x of JObject d \<Rightarrow> Inr (dict_get d k dflt) | _ \<Rightarrow> Inl AttributeError)"

text \<open>
  Lines 122--131: the value of \<^verbatim>\<open>context_summary_text\<close>, or the exception that leaves line
  130 or line 131 (neither is inside a \<^verbatim>\<open>try\<close>). \<^verbatim>\<open>combined_context[:200]\<close> is \<open>take 200\<close>.
\<close>

definition context_summary ::
  "env \<Rightarrow> AITaskManagement \<Rightarrow> context_entry list \<Rightarrow> io \<Rightarrow> (py_error + json) \<times> io" where
  "context_summary e self daily_context_data s =
     (if daily_context_data = [] then (Inr (JStr ''No daily context available.''), s)
      else
        (let combined = combined_context daily_context_data
         in (case call_llm e self (context_summary_prompt combined) ''gpt-3.5-turbo'' 150 s of
               (Inl err, s1) \<Rightarrow> (Inl err, s1)
             | (Inr summary_response, s1) \<Rightarrow>
                 (py_get summary_response ''summary'' (JStr (take 200 combined @ ''...'')), s1))))"

subsection \<open>The suggestion prompt (lines 134--161)\<close>

definition suggestion_prompt :: "env \<Rightarrow> json \<Rightarrow> json \<Rightarrow> json \<Rightarrow> json \<Rightarrow> json dict \<Rightarrow> int \<Rightarrow> string" where
  "suggestion_prompt e task_title task_description task_category context_summary_text user_preferences current_task_load =
     ''\<newline>''
       @ ''        Given the following task details, daily context, user preferences, and current task load, provide AI-powered suggestions.\<newline>''
       @ ''        The output should be a JSON object with the following keys:\<newline>''
       @ ''        - '' @ dq @ ''priority_score'' @ dq @ '': An integer from 1 to 100 (100 being highest priority), reflecting urgency and importance.\<newline>''
       @ ''        - '' @ dq @ ''deadline'' @ dq @ '': A suggested deadline in YYYY-MM-DD HH:MM:SS format, or null if no clear deadline can be inferred.\<newline>''
       @ ''        - '' @ dq @ ''suggested_category'' @ dq @ '': A concise suggested category or tag for the task (e.g., '' @ sq @ ''Work'' @ sq @ '', '' @ sq @ ''Personal'' @ sq @ '', '' @ sq @ ''Finance'' @ sq @ '', '' @ sq @ ''Health'' @ sq @ '', '' @ sq @ ''Shopping'' @ sq @ '').\<newline>''
       @ ''        - '' @ dq @ ''enhanced_description'' @ dq @ '': An improved and more detailed task description, incorporating relevant context-aware details.\<newline>''
       @ ''        - '' @ dq @ ''recommendations'' @ dq @ '': A list of short, actionable recommendations or sub-tasks related to the main task.\<newline>''
       @ ''\<newline>''
       @ ''        Task Title: '' @ fmt e task_title @ ''\<newline>''
       @ ''        Task Description: '' @ fmt e task_description @ ''\<newline>''
       @ ''        Existing Category: '' @ fmt e task_category @ ''\<newline>''
       @ ''\<newline>''
       @ ''        Daily Context Summary:\<newline>''
       @ ''        '' @ fmt e context_summary_text @ ''\<newline>''
       @ ''\<newline>''
       @ ''        User Preferences: '' @ json_dumps e user_preferences @ ''\<newline>''
       @ ''        Current Task Load: '' @ py_str e (JInt current_task_load) @ '' pending tasks\<newline>''
       @ ''\<newline>''
       @ ''        Consider the following when generating suggestions:\<newline>''
       @ ''        - **Urgency:** Look for keywords like '' @ dq @ ''urgent'' @ dq @ '', '' @ dq @ ''deadline'' @ dq @ '', '' @ dq @ ''ASAP'' @ dq @ '', dates, or implied timeframes in context.\<newline>''
       @ ''        - **Importance:** Identify key entities, people, or projects mentioned.\<newline>''
       @ ''        - **Complexity:** Estimate effort based on description.\<newline>''
       @ ''        - **Workload:** Suggest realistic deadlines given the current task load.\<newline>''
       @ ''        - **Contextual Relevance:** Integrate details from the daily context into the enhanced description.\<newline>''
       @ ''        - **Categorization:** Suggest a category that best fits the task and context.\<newline>''
       @ ''        - **Default Deadline:** If no clear deadline is inferred, suggest a reasonable default, like 3 days from now, at a standard end-of-day time (e.g., 5 PM).\<newline>''
       @ ''        ''"

subsection \<open>Post-processing (lines 165--203)\<close>

text \<open>
  The decoded object enters the post-processing as the \<^verbatim>\<open>suggestions\<close> dict, which the
  code then updates in place.
\<close>

definition lift :: "json dict \<Rightarrow> pyval dict" where
  "lift d = map (\<lambda>(k, v). (k, Json v)) d"

text \<open>
  Lines 167--172. \<^verbatim>\<open>except (ValueError, TypeError)\<close> stores 50; any other exception of
  \<^verbatim>\<open>int(...)\<close> leaves the function.
\<close>

definition fix_priority_score :: "env \<Rightarrow> pyval dict \<Rightarrow> py_error + pyval dict" where
  "fix_priority_score e suggestions =
     (if suggestions \<noteq> [] \<and> dict_in ''priority_score'' suggestions then
        (case dict_item suggestions ''priority_score'' of
           Inl err \<Rightarrow> Inl err
         | Inr v \<Rightarrow>
             (case py_int (int_str e) v of
                Inr i \<Rightarrow> Inr (dict_set ''priority_score'' (Json (JInt (max 1 (min 100 i)))) suggestions)
              | Inl err \<Rightarrow>
                  (if err = ValueError \<or> err = TypeError
                   then Inr (dict_set ''priority_score'' (Json (JInt 50)) suggestions)
                   else Inl err)))
      else Inr suggestions)"

text \<open>
  Lines 175--183. \<^verbatim>\<open>datetime.strptime\<close> raises TypeError for an argument that is not a
  \<^verbatim>\<open>str\<close>; the handler of line 179 catches ValueError only.
\<close>

definition parse_deadline :: "env \<Rightarrow> pyval dict \<Rightarrow> io \<Rightarrow> (py_error + pyval dict) \<times> io" where
  "parse_deadline e suggestions s =
     (if suggestions \<noteq> [] \<and> dict_in ''deadline'' suggestions then
        (case dict_item suggestions ''deadline'' of
           Inl err \<Rightarrow> (Inl err, s)
         | Inr v \<Rightarrow>
             (if truthy v then
                (case v of
                   Json (JStr t) \<Rightarrow>
                     (case strptime e t of
                        Some parsed \<Rightarrow> (Inr (dict_set ''deadline'' (Datetime parsed) suggestions), s)
                      | None \<Rightarrow>
                          (Inr (dict_set ''deadline'' (Json JNull) suggestions),
                           py_print (''Warning: Could not parse AI suggested deadline: '' @ t @ ''. Setting a default.'') s))
                 | _ \<Rightarrow> (Inl TypeError, s))
              else (Inr (dict_set ''deadline'' (Json JNull) suggestions), s)))
      else (Inr (dict_set ''deadline'' (Json JNull) suggestions), s))"

text \<open>Lines 186--189.\<close>

definition set_default_deadline :: "env \<Rightarrow> pyval dict \<Rightarrow> py_error + pyval dict" where
  "set_default_deadline e suggestions =
     (if suggestions \<noteq> [] then
        (case dict_item suggestions ''deadline'' of
           Inl err \<Rightarrow> Inl err
         | Inr v \<Rightarrow>
             (if v = Json JNull
              then Inr (dict_set ''deadline'' (Datetime (default_deadline (now e))) suggestions)
              else Inr suggestions))
      else Inr suggestions)"

text \<open>Lines 192--193.\<close>

definition fix_recommendations :: "pyval dict \<Rightarrow> py_error + pyval dict" where
  "fix_recommendations suggestions =
     (if suggestions \<noteq> [] \<and> dict_in ''recommendations'' suggestions then
        (case dict_item suggestions ''recommendations'' of
           Inl err \<Rightarrow> Inl err
         | Inr v \<Rightarrow>
             (if \<not> is_list v
              then Inr (dict_set ''recommendations'' (Json (JList [])) suggestions)
              else Inr suggestions))
      else Inr suggestions)"

text \<open>Lines 196--203: the returned mapping.\<close>

definition suggestion_record :: "json \<Rightarrow> json \<Rightarrow> pyval dict \<Rightarrow> pyval dict" where
  "suggestion_record task_category task_description suggestions =
     [(''priority_score'', dict_get suggestions ''priority_score'' (Json (JInt 50))),
      (''deadline'', dict_get suggestions ''deadline'' (Json JNull)),
      (''suggested_category'', dict_get suggestions ''suggested_category'' (Json task_category)),
      (''enhanced_description'', dict_get suggestions ''enhanced_description'' (Json task_description)),
      (''recommendations'', dict_get suggestions ''recommendations'' (Json (JList []))),
      (''ai_raw_response'', Dict suggestions)]"

text \<open>Lines 165--203 on a dict, in sequence; an exception ends the run where it is raised.\<close>

definition post_process_dict ::
  "env \<Rightarrow> json \<Rightarrow> json \<Rightarrow> pyval dict \<Rightarrow> io \<Rightarrow> (py_error + pyval dict) \<times> io" where
  "post_process_dict e task_category task_description suggestions s =
     (case fix_priority_score e suggestions of
        Inl err \<Rightarrow> (Inl err, s)
      | Inr sug1 \<Rightarrow>
          (case parse_deadline e sug1 s of
             (Inl err, s1) \<Rightarrow> (Inl err, s1)
           | (Inr sug2, s1) \<Rightarrow>
               (case set_default_deadline e sug2 of
                  Inl err \<Rightarrow> (Inl err, s1)
                | Inr sug3 \<Rightarrow>
                    (case fix_recommendations sug3 of
                       Inl err \<Rightarrow> (Inl err, s1)
                     | Inr sug4 \<Rightarrow> (Inr (suggestion_record task_category task_description sug4), s1)))))"

text \<open>
  Lines 165--203 on what \<^verbatim>\<open>_call_llm\<close> returned. A value that is not a dict does not get
  past line 183, and what stops it is a TypeError, before anything is printed:
  \<^item> a number or bool that is true: \<^verbatim>\<open>'priority_score' in suggestions\<close> on line 167;
  \<^item> a \<^verbatim>\<open>str\<close> or list that is true and holds \<^verbatim>\<open>'priority_score'\<close>: the subscript of line 169
    raises TypeError, line 171 catches it, and the item assignment of line 172 raises again;
  \<^item> a \<^verbatim>\<open>str\<close> or list that is true and holds \<^verbatim>\<open>'deadline'\<close>: the subscript in the condition
    of line 175;
  \<^item> everything else (\<^verbatim>\<open>None\<close>, false, zero, empty, or holding neither key): the item
    assignment of line 183.
\<close>

definition post_process :: "env \<Rightarrow> json \<Rightarrow> json \<Rightarrow> json \<Rightarrow> io \<Rightarrow> (py_error + pyval dict) \<times> io" where
  "post_process e task_category task_description suggestions s =
     (case suggestions of
        JObject d \<Rightarrow> post_process_dict e task_category task_description (lift d) s
      | _ \<Rightarrow> (Inl TypeError, s))"

text \<open>
  Lines 113--203. \<open>suggestion_call\<close> is the second \<^verbatim>\<open>_call_llm\<close> (line 163) together with
  everything before it; its first component is the LLM layer's result, or the exception
  that ended the run before line 165.
\<close>

definition suggestion_call ::
  "env \<Rightarrow> AITaskManagement \<Rightarrow> json dict \<Rightarrow> context_entry list \<Rightarrow> json dict \<Rightarrow> int \<Rightarrow> io
     \<Rightarrow> (py_error + json) \<times> io" where
  "suggestion_call e self task_details daily_context_data user_preferences current_task_load s =
     (let task_title = dict_get task_details ''title'' (JStr []);
          task_description = dict_get task_details ''description'' (JStr []);
          task_category = dict_get task_details ''category'' (JStr ''Uncategorized'')
      in (case context_summary e self daily_context_data s of
            (Inl err, s1) \<Rightarrow> (Inl err, s1)
          | (Inr context_summary_text, s1) \<Rightarrow>
              call_llm e self
                (suggestion_prompt e task_title task_description task_category context_summary_text
                   user_preferences current_task_load)
                ''gpt-4o-mini'' 400 s1))"

definition get_task_suggestions ::
  "env \<Rightarrow> AITaskManagement \<Rightarrow> json dict \<Rightarrow> context_entry list \<Rightarrow> json dict \<Rightarrow> int \<Rightarrow> io
     \<Rightarrow> (py_error + pyval dict) \<times> io" where
  "get_task_suggestions e self task_details daily_context_data user_preferences current_task_load s =
     (case suggestion_call e self task_details daily_context_data user_preferences current_task_load s of
        (Inl err, s2) \<Rightarrow> (Inl err, s2)
      | (Inr suggestions, s2) \<Rightarrow>
          post_process e
            (dict_get task_details ''category'' (JStr ''Uncategorized''))
            (dict_get task_details ''description'' (JStr []))
            suggestions s2)"

section \<open>The lifecycle hook (\<^verbatim>\<open>views.py\<close>, lines 49--63)\<close>

record task =
  title :: string
  description :: "string option"
  category :: "string option"
  priority_score :: pyval
  deadline :: pyval
  ai_suggestions :: "pyval dict option"

definition opt_str :: "string option \<Rightarrow> json" where
  "opt_str x = (case x of None \<Rightarrow> JNull | Some v \<Rightarrow> JStr v)"

definition task_details_of :: "task \<Rightarrow> json dict" where
  "task_details_of t =
     [(''title'', JStr (title t)),
      (''description'', opt_str (description t)),
      (''category'', opt_str (category t))]"

text \<open>
  Lines 49--63 of \<^verbatim>\<open>perform_create\<close>: the call with \<^verbatim>\<open>user_preferences = {}\<close> and the three
  assignments. Saving the row is outside this model.
\<close>

definition perform_create ::
  "env \<Rightarrow> AITaskManagement \<Rightarrow> task \<Rightarrow> context_entry list \<Rightarrow> int \<Rightarrow> io \<Rightarrow> (py_error + task) \<times> io" where
  "perform_create e ai_manager t daily_context_data current_task_load s =
     (case get_task_suggestions e ai_manager (task_details_of t) daily_context_data [] current_task_load s of
        (Inl err, s1) \<Rightarrow> (Inl err, s1)
      | (Inr ai, s1) \<Rightarrow>
          (Inr (t\<lparr>priority_score := dict_get ai ''priority_score'' (Json (JInt 0)),
                  deadline := dict_get ai ''deadline'' (Json JNull),
                  ai_suggestions := Some ai\<rparr>),
           s1))"

section \<open>Auxiliary notions for the statements\<close>

text \<open>
  The value the backend's answer decodes to, when the call of \<^verbatim>\<open>_call_llm\<close> reaches line 74
  and \<^verbatim>\<open>json.loads\<close> succeeds; \<open>None\<close> on every other path (no client, the unimplemented
  branch, an exception of the backend, no choice, no content, a decode error).
\<close>

definition decoded_answer :: "env \<Rightarrow> AITaskManagement \<Rightarrow> request \<Rightarrow> json option" where
  "decoded_answer e self req =
     (case client self of
        None \<Rightarrow> None
      | Some create \<Rightarrow>
          (if api_choice self = openai \<or> api_choice self = lm_studio then
             (case create req of
                Raised x msg \<Rightarrow> None
              | Completion choices \<Rightarrow>
                  (case choices of
                     [] \<Rightarrow> None
                   | c # cs \<Rightarrow>
                       (case c of
                          None \<Rightarrow> None
                        | Some raw \<Rightarrow> (case json_loads e raw of Inl m \<Rightarrow> None | Inr v \<Rightarrow> Some v))))
           else None))"

text \<open>The backend is reached and answers the request by raising a JSONDecodeError.\<close>

definition backend_decode_error :: "AITaskManagement \<Rightarrow> request \<Rightarrow> bool" where
  "backend_decode_error self req =
     (case client self of
        None \<Rightarrow> False
      | Some create \<Rightarrow>
          (if api_choice self = openai \<or> api_choice self = lm_studio then
             (case create req of
                Raised x msg \<Rightarrow> (case x of JSONDecodeError \<Rightarrow> True | OtherException \<Rightarrow> False)
              | Completion choices \<Rightarrow> False)
           else False))"

text \<open>\<^verbatim>\<open>s.split('\n')\<close>: the lines of a text.\<close>

fun split_lines :: "string \<Rightarrow> string list" where
  "split_lines [] = [[]]"
| "split_lines (c # cs) =
     (if c = CHR ''\<newline>'' then [] # split_lines cs
      else (case split_lines cs of [] \<Rightarrow> [[c]] | l # ls \<Rightarrow> (c # l) # ls))"

subsection \<open>A concrete world for the examples\<close>

text \<open>
  An environment whose \<^verbatim>\<open>json.loads\<close> is given, whose \<^verbatim>\<open>int\<close> reads the string \<^verbatim>\<open>250\<close>, whose
  \<^verbatim>\<open>strptime\<close> reads \<^verbatim>\<open>2025-03-10 09:00:00\<close>, and whose clock stands at 2025-02-27 09:30:15;
  an adapter whose backend answers every request with the given content, one whose
  backend raises a connection error on every request, and one whose backend raises a
  JSONDecodeError on every request.
\<close>

definition sample_now :: datetime where
  "sample_now = \<lparr>year = 2025, month = 2, day = 27, hour = 9, minute = 30, second = 15, microsecond = 250\<rparr>"

definition sample_env :: "(string \<Rightarrow> string + json) \<Rightarrow> env" where
  "sample_env loads =
     \<lparr>getenv = (\<lambda>name. None),
      OpenAI = (\<lambda>base_url api_key req. Raised OtherException ''Connection error.''),
      json_loads = loads,
      json_dumps = (\<lambda>d. ''{}''),
      py_str = (\<lambda>v. ''None''),
      int_str = (\<lambda>s. if s = ''250'' then Some 250 else None),
      strptime = (\<lambda>s. if s = ''2025-03-10 09:00:00''
                        then Some \<lparr>year = 2025, month = 3, day = 10, hour = 9, minute = 0, second = 0, microsecond = 0\<rparr>
                        else None),
      now = sample_now\<rparr>"

definition io0 :: io where
  "io0 = \<lparr>stdout = [], requests = []\<rparr>"

definition answering :: "string \<Rightarrow> AITaskManagement" where
  "answering raw = \<lparr>api_choice = openai, client = Some (\<lambda>req. Completion [Some raw])\<rparr>"

definition outage :: AITaskManagement where
  "outage = \<lparr>api_choice = openai, client = Some (\<lambda>req. Raised OtherException ''Connection error.'')\<rparr>"

definition decode_outage :: AITaskManagement where
  "decode_outage =
     \<lparr>api_choice = openai,
      client = Some (\<lambda>req. Raised JSONDecodeError ''Expecting value: line 1 column 1 (char 0)'')\<rparr>"

definition sample_task :: "json dict" where
  "sample_task = [(''title'', JStr ''Pay rent''), (''description'', JStr ''before Friday''), (''category'', JNull)]"

definition sample_context :: "context_entry list" where
  "sample_context =
     [\<lparr>content = ''Rent is due'', source_type = ''email''\<rparr>,
      \<lparr>content = ''call the landlord'', source_type = ''note''\<rparr>]"

section \<open>Properties\<close>

subsection \<open>Dictionaries and the steps of the post-processing\<close>

lemmas model_defs = get_task_suggestions_def suggestion_call_def context_summary_def call_llm_def caught_def
  post_process_def post_process_dict_def fix_priority_score_def parse_deadline_def set_default_deadline_def
  fix_recommendations_def suggestion_record_def lift_def dict_get_def dict_in_def dict_item_def
  dict_set_def py_get_def py_int_def truthy_def is_list_def py_print_def

lemmas sample_defs = sample_env_def io0_def answering_def outage_def decode_outage_def sample_task_def
  sample_context_def

lemma map_of_dict_set: "map_of (dict_set k v d) k' = (if k' = k then Some v else map_of d k')"
  by (simp add: dict_set_def update_conv')

lemma dict_set_nonempty: "dict_set k v d \<noteq> []"
  by (simp add: dict_set_def)

lemma map_of_lift: "map_of (lift d) k = map_option Json (map_of d k)"
  by (induction d) (auto simp: lift_def)

lemma fix_priority_score_frame:
  "fix_priority_score e sug = Inr sug1 \<Longrightarrow> k \<noteq> ''priority_score'' \<Longrightarrow> map_of sug1 k = map_of sug k"
  by (auto simp: fix_priority_score_def dict_item_def map_of_dict_set
      split: if_splits option.splits sum.splits)

lemma fix_priority_score_value:
  "fix_priority_score e sug = Inr sug1 \<Longrightarrow>
   map_of sug1 ''priority_score'' =
     (case map_of sug ''priority_score'' of
        None \<Rightarrow> None
      | Some v \<Rightarrow> Some (Json (JInt (case py_int (int_str e) v of Inr i \<Rightarrow> max 1 (min 100 i) | Inl err \<Rightarrow> 50))))"
  by (auto simp: fix_priority_score_def dict_item_def dict_in_def map_of_dict_set
      split: if_splits option.splits sum.splits)

lemma parse_deadline_frame:
  "parse_deadline e sug s = (Inr sug2, s') \<Longrightarrow> k \<noteq> ''deadline'' \<Longrightarrow> map_of sug2 k = map_of sug k"
  by (auto simp: parse_deadline_def dict_item_def map_of_dict_set
      split: if_splits option.splits sum.splits pyval.splits json.splits)

lemma parse_deadline_nonempty:
  "parse_deadline e sug s = (Inr sug2, s') \<Longrightarrow> sug2 \<noteq> []"
  by (auto simp: parse_deadline_def dict_item_def dict_set_nonempty
      split: if_splits option.splits sum.splits pyval.splits json.splits)

lemma parse_deadline_requests:
  "requests (snd (parse_deadline e sug s)) = requests s"
  by (auto simp: parse_deadline_def dict_item_def py_print_def
      split: if_splits option.splits sum.splits pyval.splits json.splits)

lemma set_default_deadline_frame:
  "set_default_deadline e sug = Inr sug3 \<Longrightarrow> k \<noteq> ''deadline'' \<Longrightarrow> map_of sug3 k = map_of sug k"
  by (auto simp: set_default_deadline_def dict_item_def map_of_dict_set
      split: if_splits option.splits sum.splits)

lemma fix_recommendations_frame:
  "fix_recommendations sug = Inr sug4 \<Longrightarrow> k \<noteq> ''recommendations'' \<Longrightarrow> map_of sug4 k = map_of sug k"
  by (auto simp: fix_recommendations_def dict_item_def map_of_dict_set
      split: if_splits option.splits sum.splits)

lemma fix_recommendations_value:
  "fix_recommendations sug = Inr sug4 \<Longrightarrow>
   map_of sug4 ''recommendations'' =
     (case map_of sug ''recommendations'' of
        None \<Rightarrow> None
      | Some v \<Rightarrow> Some (if is_list v then v else Json (JList [])))"
  by (auto simp: fix_recommendations_def dict_item_def dict_in_def map_of_dict_set
      split: if_splits option.splits sum.splits)

lemma post_process_dict_Inr:
  assumes "post_process_dict e c d sug s = (Inr r, s')"
  obtains sug1 sug2 sug3 sug4 where
    "fix_priority_score e sug = Inr sug1"
    "parse_deadline e sug1 s = (Inr sug2, s')"
    "set_default_deadline e sug2 = Inr sug3"
    "fix_recommendations sug3 = Inr sug4"
    "r = suggestion_record c d sug4"
  using assms
  by (auto simp: post_process_dict_def split: sum.splits prod.splits)

lemma post_process_dict_requests:
  "requests (snd (post_process_dict e c d sug s)) = requests s"
  using parse_deadline_requests [of e _ s]
  by (auto simp: post_process_dict_def split: sum.splits prod.splits) (metis snd_conv)+

lemma post_process_requests:
  "requests (snd (post_process e c d v s)) = requests s"
  by (cases v) (simp_all add: post_process_def post_process_dict_requests)

lemma post_process_empty:
  "fst (post_process e c d (JObject []) s) =
     Inr [(''priority_score'', Json (JInt 50)),
          (''deadline'', Datetime (default_deadline (now e))),
          (''suggested_category'', Json c),
          (''enhanced_description'', Json d),
          (''recommendations'', Json (JList [])),
          (''ai_raw_response'', Dict [(''deadline'', Datetime (default_deadline (now e)))])]"
  by (simp add: model_defs)

lemma post_process_error:
  "fst (post_process e c d (JObject [(''error'', JStr m)]) s) =
     Inr [(''priority_score'', Json (JInt 50)),
          (''deadline'', Datetime (default_deadline (now e))),
          (''suggested_category'', Json c),
          (''enhanced_description'', Json d),
          (''recommendations'', Json (JList [])),
          (''ai_raw_response'', Dict [(''error'', Json (JStr m)), (''deadline'', Datetime (default_deadline (now e)))])]"
  by (simp add: model_defs)

subsection \<open>The adapter\<close>

lemma call_llm_requests:
  "requests (snd (call_llm e self p m n s)) =
     requests s @ (if client self \<noteq> None \<and> api_choice self \<noteq> claude then [chat_request m p n] else [])"
  by (cases "api_choice self")
     (auto simp: call_llm_def caught_def py_print_def Let_def
        split: option.splits response.splits exc.splits list.splits sum.splits)

lemma call_llm_failed_case:
  "decoded_answer e self (chat_request m p n) = None \<Longrightarrow>
   \<not> backend_decode_error self (chat_request m p n) \<Longrightarrow>
   (case fst (call_llm e self p m n s) of
      Inl err \<Rightarrow> False
    | Inr v \<Rightarrow> (case v of JObject d \<Rightarrow> \<not> dict_in ''summary'' d | _ \<Rightarrow> False))"
  by (auto simp: call_llm_def decoded_answer_def backend_decode_error_def caught_def dict_in_def Let_def
        split: option.splits response.splits exc.splits list.splits sum.splits if_splits)

lemma call_llm_failed:
  assumes "decoded_answer e self (chat_request m p n) = None"
    and "\<not> backend_decode_error self (chat_request m p n)"
  shows "\<exists>d. fst (call_llm e self p m n s) = Inr (JObject d) \<and> \<not> dict_in ''summary'' d"
proof (cases "fst (call_llm e self p m n s)")
  case (Inl err)
  then show ?thesis
    using call_llm_failed_case [OF assms, of s] by simp
next
  case (Inr v)
  then show ?thesis
    using call_llm_failed_case [OF assms, of s] by (cases v) simp_all
qed

lemma call_llm_decoded:
  "decoded_answer e self (chat_request m p n) = Some v \<Longrightarrow> fst (call_llm e self p m n s) = Inr v"
  by (auto simp: call_llm_def decoded_answer_def caught_def Let_def
        split: option.splits response.splits exc.splits list.splits sum.splits if_splits)

lemma outage_call:
  "client self = Some (\<lambda>req. Raised OtherException (msg req)) \<Longrightarrow>
   fst (call_llm e self p m n s) =
     Inr (JObject (if api_choice self = claude then [] else [(''error'', JStr (msg (chat_request m p n)))]))"
  by (cases "api_choice self") (simp_all add: call_llm_def caught_def Let_def)

lemma default_deadline_sample:
  "default_deadline sample_now =
     \<lparr>year = 2025, month = 3, day = 2, hour = 17, minute = 0, second = 0, microsecond = 0\<rparr>"
  by (simp add: default_deadline_def plus_3_days_def next_day_def days_in_month_def is_leap_def sample_now_def)

subsection \<open>The summary\<close>

lemma context_summary_state:
  "snd (context_summary e self daily_context_data s) =
     (if daily_context_data = [] then s else snd (call_llm e self (context_summary_prompt (combined_context daily_context_data)) ''gpt-3.5-turbo'' 150 s))"
  by (cases "call_llm e self (context_summary_prompt (combined_context daily_context_data)) ''gpt-3.5-turbo'' 150 s")
     (auto simp: context_summary_def Let_def split: sum.splits)

lemma context_summary_object:
  "daily_context_data \<noteq> [] \<Longrightarrow>
   fst (call_llm e self (context_summary_prompt (combined_context daily_context_data)) ''gpt-3.5-turbo'' 150 s) = Inr (JObject d) \<Longrightarrow>
   fst (context_summary e self daily_context_data s) =
     Inr (dict_get d ''summary'' (JStr (take 200 (combined_context daily_context_data) @ ''...'')))"
  by (cases "call_llm e self (context_summary_prompt (combined_context daily_context_data)) ''gpt-3.5-turbo'' 150 s")
     (auto simp: context_summary_def py_get_def Let_def split: sum.splits)

lemma suggestion_call_after_summary:
  "context_summary e self daily_context_data s = (Inr summ, s1) \<Longrightarrow>
   suggestion_call e self task_details daily_context_data user_preferences current_task_load s =
     call_llm e self
       (suggestion_prompt e
          (dict_get task_details ''title'' (JStr []))
          (dict_get task_details ''description'' (JStr []))
          (dict_get task_details ''category'' (JStr ''Uncategorized''))
          summ user_preferences current_task_load)
       ''gpt-4o-mini'' 400 s1"
  by (simp add: suggestion_call_def Let_def)

subsection \<open>Lines of the combined context\<close>

lemma split_lines_line: "CHR ''\<newline>'' \<notin> set x \<Longrightarrow> split_lines x = [x]"
  by (induction x) auto

lemma split_lines_append:
  "CHR ''\<newline>'' \<notin> set x \<Longrightarrow> split_lines (x @ CHR ''\<newline>'' # rest) = x # split_lines rest"
  by (induction x) auto

lemma split_lines_join:
  "ls \<noteq> [] \<Longrightarrow> \<forall>l \<in> set ls. CHR ''\<newline>'' \<notin> set l \<Longrightarrow> split_lines (join ''\<newline>'' ls) = ls"
proof (induction ls)
  case Nil
  then show ?case by simp
next
  case (Cons l ls)
  show ?case
  proof (cases ls)
    case Nil
    with Cons.prems show ?thesis by (simp add: split_lines_line)
  next
    case (Cons l' ls')
    with Cons.IH Cons.prems have "split_lines (join ''\<newline>'' ls) = ls" by simp
    with Cons Cons.prems show ?thesis
      using split_lines_append [of l "join ''\<newline>'' ls"] by simp
  qed
qed

lemma entry_line_no_newline:
  "CHR ''\<newline>'' \<notin> set (source_type c) \<Longrightarrow> CHR ''\<newline>'' \<notin> set (content c) \<Longrightarrow>
   CHR ''\<newline>'' \<notin> set (entry_line c)"
  by (simp add: entry_line_def)

lemma combined_context_sample:
  "combined_context sample_context = ''Source: email: Rent is due\<newline>Source: note: call the landlord''"
  by (simp add: combined_context_def sample_context_def entry_line_def)

subsection \<open>What a returned record holds\<close>

text \<open>
  What a returned record comes from: the LLM layer's result is a dict, and the record is
  what the four post-processing steps make of it.
\<close>

lemma run_steps:
  assumes "fst (get_task_suggestions e self task_details daily_context_data user_preferences current_task_load s) = Inr r"
  obtains d sug1 sug2 sug3 sug4 s2 s3 where
    "fst (suggestion_call e self task_details daily_context_data user_preferences current_task_load s) = Inr (JObject d)"
    "fix_priority_score e (lift d) = Inr sug1"
    "parse_deadline e sug1 s2 = (Inr sug2, s3)"
    "set_default_deadline e sug2 = Inr sug3"
    "fix_recommendations sug3 = Inr sug4"
    "r = suggestion_record (dict_get task_details ''category'' (JStr ''Uncategorized''))
           (dict_get task_details ''description'' (JStr [])) sug4"
proof -
  obtain x s2 where call: "suggestion_call e self task_details daily_context_data user_preferences current_task_load s = (x, s2)"
    by (cases "suggestion_call e self task_details daily_context_data user_preferences current_task_load s")
  obtain v where x: "x = Inr v"
    and pp: "fst (post_process e (dict_get task_details ''category'' (JStr ''Uncategorized''))
       (dict_get task_details ''description'' (JStr [])) v s2) = Inr r"
    using assms call by (cases x) (auto simp: get_task_suggestions_def)
  obtain d where v: "v = JObject d"
    and ppd: "fst (post_process_dict e (dict_get task_details ''category'' (JStr ''Uncategorized''))
       (dict_get task_details ''description'' (JStr [])) (lift d) s2) = Inr r"
    using pp by (cases v) (auto simp: post_process_def)
  obtain s3 where "post_process_dict e (dict_get task_details ''category'' (JStr ''Uncategorized''))
       (dict_get task_details ''description'' (JStr [])) (lift d) s2 = (Inr r, s3)"
    using ppd
    by (cases "post_process_dict e (dict_get task_details ''category'' (JStr ''Uncategorized''))
       (dict_get task_details ''description'' (JStr [])) (lift d) s2") simp
  then show ?thesis
    using call x v that by (elim post_process_dict_Inr) simp
qed

text \<open>
  Whenever a record is returned, its \<^verbatim>\<open>priority_score\<close> is an integer in \<open>[1, 100]\<close> and its
  \<^verbatim>\<open>deadline\<close> is a datetime: the parsed one for a non-empty string that
  \<^verbatim>\<open>strptime\<close> accepts, the default otherwise.
\<close>

lemma set_default_deadline_value:
  "set_default_deadline e sug = Inr sug3 \<Longrightarrow> sug \<noteq> [] \<Longrightarrow>
   map_of sug3 ''deadline'' =
     (case map_of sug ''deadline'' of
        None \<Rightarrow> None
      | Some v \<Rightarrow> Some (if v = Json JNull then Datetime (default_deadline (now e)) else v))"
  by (auto simp: set_default_deadline_def dict_item_def map_of_dict_set
      split: if_splits option.splits sum.splits)

lemma parse_deadline_value:
  "parse_deadline e sug s = (Inr sug2, s') \<Longrightarrow>
   map_of sug2 ''deadline'' =
     Some (case map_of sug ''deadline'' of
             None \<Rightarrow> Json JNull
           | Some v \<Rightarrow>
               (case v of
                  Json (JStr t) \<Rightarrow>
                    (if t = [] then Json JNull
                     else (case strptime e t of None \<Rightarrow> Json JNull | Some parsed \<Rightarrow> Datetime parsed))
                | _ \<Rightarrow> Json JNull))"
  by (auto simp: parse_deadline_def dict_item_def dict_in_def map_of_dict_set truthy_def
      split: if_splits option.splits sum.splits pyval.splits json.splits)

lemma returned_priority_score:
  assumes "fst (get_task_suggestions e self task_details daily_context_data user_preferences current_task_load s) = Inr r"
  shows "\<exists>i. map_of r ''priority_score'' = Some (Json (JInt i)) \<and> 1 \<le> i \<and> i \<le> 100"
proof -
  from assms obtain d sug1 sug2 sug3 sug4 s2 s3 where steps:
    "fst (suggestion_call e self task_details daily_context_data user_preferences current_task_load s) = Inr (JObject d)"
    "fix_priority_score e (lift d) = Inr sug1"
    "parse_deadline e sug1 s2 = (Inr sug2, s3)"
    "set_default_deadline e sug2 = Inr sug3"
    "fix_recommendations sug3 = Inr sug4"
    "r = suggestion_record (dict_get task_details ''category'' (JStr ''Uncategorized''))
           (dict_get task_details ''description'' (JStr [])) sug4"
    by (rule run_steps)
  have "map_of sug4 ''priority_score'' = map_of sug1 ''priority_score''"
    using fix_recommendations_frame [OF steps(5), of "''priority_score''"]
      set_default_deadline_frame [OF steps(4), of "''priority_score''"]
      parse_deadline_frame [OF steps(3), of "''priority_score''"]
    by simp
  then show ?thesis
    using fix_priority_score_value [OF steps(2)] steps(6)
    by (auto simp: suggestion_record_def dict_get_def split: option.splits sum.splits)
qed

lemma returned_deadline:
  assumes "fst (get_task_suggestions e self task_details daily_context_data user_preferences current_task_load s) = Inr r"
  shows "\<exists>d. fst (suggestion_call e self task_details daily_context_data user_preferences current_task_load s) = Inr (JObject d) \<and>
           map_of r ''deadline'' =
           Some (Datetime
             (case map_of d ''deadline'' of
                None \<Rightarrow> default_deadline (now e)
              | Some v \<Rightarrow>
                  (case v of
                     JStr t \<Rightarrow>
                       (if t = [] then default_deadline (now e)
                        else (case strptime e t of None \<Rightarrow> default_deadline (now e) | Some parsed \<Rightarrow> parsed))
                   | _ \<Rightarrow> default_deadline (now e))))"
proof -
  from assms obtain d sug1 sug2 sug3 sug4 s2 s3 where steps:
    "fst (suggestion_call e self task_details daily_context_data user_preferences current_task_load s) = Inr (JObject d)"
    "fix_priority_score e (lift d) = Inr sug1"
    "parse_deadline e sug1 s2 = (Inr sug2, s3)"
    "set_default_deadline e sug2 = Inr sug3"
    "fix_recommendations sug3 = Inr sug4"
    "r = suggestion_record (dict_get task_details ''category'' (JStr ''Uncategorized''))
           (dict_get task_details ''description'' (JStr [])) sug4"
    by (rule run_steps)
  have one: "map_of sug1 ''deadline'' = map_option Json (map_of d ''deadline'')"
    using fix_priority_score_frame [OF steps(2), of "''deadline''"] by (simp add: map_of_lift)
  have four: "map_of sug4 ''deadline'' = map_of sug3 ''deadline''"
    using fix_recommendations_frame [OF steps(5), of "''deadline''"] by simp
  have "map_of r ''deadline'' =
           Some (Datetime
             (case map_of d ''deadline'' of
                None \<Rightarrow> default_deadline (now e)
              | Some v \<Rightarrow>
                  (case v of
                     JStr t \<Rightarrow>
                       (if t = [] then default_deadline (now e)
                        else (case strptime e t of None \<Rightarrow> default_deadline (now e) | Some parsed \<Rightarrow> parsed))
                   | _ \<Rightarrow> default_deadline (now e))))"
    using parse_deadline_value [OF steps(3)] parse_deadline_nonempty [OF steps(3)]
      set_default_deadline_value [OF steps(4)] one four steps(6)
    by (auto simp: suggestion_record_def dict_get_def split: option.splits json.splits)
  with steps(1) show ?thesis
    by (intro exI [of _ d] conjI)
qed

text \<open>
  An outage by any exception but a JSONDecodeError: the run returns the record of
  defaults.
\<close>

lemma other_outage_gives_defaults:
  assumes "client self = Some (\<lambda>req. Raised OtherException (msg req))"
  shows "\<exists>raw. fst (get_task_suggestions e self task_details daily_context_data user_preferences current_task_load s) =
     Inr [(''priority_score'', Json (JInt 50)),
          (''deadline'', Datetime ((plus_3_days (now e))\<lparr>hour := 17, minute := 0, second := 0, microsecond := 0\<rparr>)),
          (''suggested_category'', Json (dict_get task_details ''category'' (JStr ''Uncategorized''))),
          (''enhanced_description'', Json (dict_get task_details ''description'' (JStr []))),
          (''recommendations'', Json (JList [])),
          (''ai_raw_response'', raw)]"
proof -
  obtain summ s1 where summary: "context_summary e self daily_context_data s = (Inr summ, s1)"
  proof (cases "daily_context_data = []")
    case True
    then show ?thesis
      using that by (simp add: context_summary_def)
  next
    case False
    then have "\<exists>summ. fst (context_summary e self daily_context_data s) = Inr summ"
      using context_summary_object [OF False, of e self s] outage_call [OF assms, of e _ "''gpt-3.5-turbo''" 150 s]
      by simp
    then show ?thesis
      using that by (cases "context_summary e self daily_context_data s") auto
  qed
  obtain x s2 where call: "suggestion_call e self task_details daily_context_data user_preferences current_task_load s = (x, s2)"
    by (cases "suggestion_call e self task_details daily_context_data user_preferences current_task_load s")
  have "call_llm e self
       (suggestion_prompt e
          (dict_get task_details ''title'' (JStr []))
          (dict_get task_details ''description'' (JStr []))
          (dict_get task_details ''category'' (JStr ''Uncategorized''))
          summ user_preferences current_task_load)
       ''gpt-4o-mini'' 400 s1 = (x, s2)"
    using call suggestion_call_after_summary [OF summary, of task_details user_preferences current_task_load]
    by simp
  then have "x = fst (call_llm e self
       (suggestion_prompt e
          (dict_get task_details ''title'' (JStr []))
          (dict_get task_details ''description'' (JStr []))
          (dict_get task_details ''category'' (JStr ''Uncategorized''))
          summ user_preferences current_task_load)
       ''gpt-4o-mini'' 400 s1)"
    by simp
  then have "x = Inr (JObject []) \<or> (\<exists>m. x = Inr (JObject [(''error'', JStr m)]))"
    by (simp add: outage_call [OF assms])
  then show ?thesis
    using call post_process_empty [of e _ _ s2] post_process_error [of e _ _ _ s2]
    by (auto simp: get_task_suggestions_def default_deadline_def)
qed

text \<open>
  A summary answer that is valid JSON but not an object, here the list \<^verbatim>\<open>[]\<close>: line 131
  raises AttributeError and the run ends there.
\<close>

lemma list_summary_answer_raises:
  "fst (context_summary (sample_env (\<lambda>raw. Inr (JList []))) (answering ''[]'') sample_context io0) =
     Inl AttributeError \<and>
   fst (get_task_suggestions (sample_env (\<lambda>raw. Inr (JList []))) (answering ''[]'') sample_task sample_context [] 4 io0) =
     Inl AttributeError"
  by (simp add: model_defs sample_defs)

subsection \<open>The claims\<close>

text \<open>
  C1. The claim: whatever the LLM layer returns, the returned \<^verbatim>\<open>priority_score\<close> is an
  integer in \<open>[1, 100]\<close>, and a numeric value outside the range is clamped to the nearest
  bound. The code does not do this for an infinite float: when the decoded object is
  \<^verbatim>\<open>{"priority_score": 1e999}\<close> (\<^verbatim>\<open>json.loads\<close> gives \<^verbatim>\<open>float('inf')\<close>), \<^verbatim>\<open>int(...)\<close> on line 169
  raises OverflowError, line 171 catches ValueError and TypeError only, and
  \<^verbatim>\<open>get_task_suggestions\<close> raises instead of returning 100.
\<close>

theorem priority_score_infinity_raises:
  "fst (get_task_suggestions (sample_env (\<lambda>raw. Inr (JObject [(''priority_score'', JFloat PosInf)])))
          (answering (''{'' @ dq @ ''priority_score'' @ dq @ '': 1e999}'')) sample_task [] [] 0 io0)
   = Inl OverflowError"
  by (simp add: model_defs sample_defs)

text \<open>
  C2. The claim: the returned deadline is the parsed timestamp for a string in the format,
  and the default for any other value. The code does not do this for a value that is
  neither a \<^verbatim>\<open>str\<close> nor false: when the decoded object is \<^verbatim>\<open>{"deadline": 1741597200}\<close>,
  \<^verbatim>\<open>datetime.strptime\<close> on line 178 raises TypeError, line 179 catches ValueError only (line
  171 catches both), and \<^verbatim>\<open>get_task_suggestions\<close> raises instead of returning the default.
\<close>

theorem deadline_number_raises:
  "fst (get_task_suggestions (sample_env (\<lambda>raw. Inr (JObject [(''deadline'', JInt 1741597200)])))
          (answering (''{'' @ dq @ ''deadline'' @ dq @ '': 1741597200}'')) sample_task [] [] 0 io0)
   = Inl TypeError"
  by (simp add: model_defs sample_defs)

text \<open>
  C3. The claim: when every call of the adapter raises, \<^verbatim>\<open>get_task_suggestions\<close> does not
  raise and returns the record of defaults. The code does not do this when what the
  backend raises is a \<^verbatim>\<open>json.JSONDecodeError\<close>: line 89 catches it, the f-string of line 90
  reads \<^verbatim>\<open>response\<close>, which was never assigned, and the UnboundLocalError leaves
  \<^verbatim>\<open>_call_llm\<close> and \<^verbatim>\<open>get_task_suggestions\<close>, with or without context entries. (For every
  other exception the record of defaults is returned: \<open>other_outage_gives_defaults\<close>.)
\<close>

theorem backend_decode_error_escapes:
  "fst (get_task_suggestions (sample_env (\<lambda>raw. Inr (JObject []))) decode_outage sample_task [] [] 0 io0) =
     Inl UnboundLocalError \<and>
   fst (get_task_suggestions (sample_env (\<lambda>raw. Inr (JObject []))) decode_outage sample_task sample_context [] 4 io0) =
     Inl UnboundLocalError"
  by (simp add: model_defs sample_defs)

text \<open>
  C4. With no context entry, \<^verbatim>\<open>context_summary_text\<close> is the literal
  \<^verbatim>\<open>No daily context available.\<close> and the summary costs no call: the run is the one
  \<^verbatim>\<open>_call_llm\<close> of line 163, whose prompt carries the literal, followed by the
  post-processing; the only request sent (when the adapter has a client and is not the
  unimplemented variant) is that call's, with a budget of 400 tokens.
\<close>

theorem empty_context_no_summary_call:
  "context_summary e self [] s = (Inr (JStr ''No daily context available.''), s) \<and>
   get_task_suggestions e self task_details [] user_preferences current_task_load s =
     (case call_llm e self
            (suggestion_prompt e
               (dict_get task_details ''title'' (JStr []))
               (dict_get task_details ''description'' (JStr []))
               (dict_get task_details ''category'' (JStr ''Uncategorized''))
               (JStr ''No daily context available.'') user_preferences current_task_load)
            ''gpt-4o-mini'' 400 s of
        (Inl err, s2) \<Rightarrow> (Inl err, s2)
      | (Inr suggestions, s2) \<Rightarrow>
          post_process e
            (dict_get task_details ''category'' (JStr ''Uncategorized''))
            (dict_get task_details ''description'' (JStr []))
            suggestions s2) \<and>
   requests (snd (get_task_suggestions e self task_details [] user_preferences current_task_load s)) =
     requests s @
       (if client self \<noteq> None \<and> api_choice self \<noteq> claude
        then [chat_request ''gpt-4o-mini''
                (suggestion_prompt e
               (dict_get task_details ''title'' (JStr []))
               (dict_get task_details ''description'' (JStr []))
               (dict_get task_details ''category'' (JStr ''Uncategorized''))
               (JStr ''No daily context available.'') user_preferences current_task_load)
                400]
        else [])"
proof -
  have summary: "context_summary e self [] s = (Inr (JStr ''No daily context available.''), s)"
    by (simp add: context_summary_def)
  have run: "get_task_suggestions e self task_details [] user_preferences current_task_load s =
     (case call_llm e self
            (suggestion_prompt e
               (dict_get task_details ''title'' (JStr []))
               (dict_get task_details ''description'' (JStr []))
               (dict_get task_details ''category'' (JStr ''Uncategorized''))
               (JStr ''No daily context available.'') user_preferences current_task_load)
            ''gpt-4o-mini'' 400 s of
        (Inl err, s2) \<Rightarrow> (Inl err, s2)
      | (Inr suggestions, s2) \<Rightarrow>
          post_process e
            (dict_get task_details ''category'' (JStr ''Uncategorized''))
            (dict_get task_details ''description'' (JStr []))
            suggestions s2)"
    by (simp add: get_task_suggestions_def suggestion_call_def summary Let_def)
  have reqs: "requests (snd (get_task_suggestions e self task_details [] user_preferences current_task_load s)) =
     requests (snd (call_llm e self
            (suggestion_prompt e
               (dict_get task_details ''title'' (JStr []))
               (dict_get task_details ''description'' (JStr []))
               (dict_get task_details ''category'' (JStr ''Uncategorized''))
               (JStr ''No daily context available.'') user_preferences current_task_load)
            ''gpt-4o-mini'' 400 s))"
    unfolding run
    by (cases "call_llm e self
            (suggestion_prompt e
               (dict_get task_details ''title'' (JStr []))
               (dict_get task_details ''description'' (JStr []))
               (dict_get task_details ''category'' (JStr ''Uncategorized''))
               (JStr ''No daily context available.'') user_preferences current_task_load)
            ''gpt-4o-mini'' 400 s")
       (auto simp: post_process_requests split: sum.splits)
  have sent: "requests (snd (get_task_suggestions e self task_details [] user_preferences current_task_load s)) =
     requests s @
       (if client self \<noteq> None \<and> api_choice self \<noteq> claude
        then [chat_request ''gpt-4o-mini''
                (suggestion_prompt e
               (dict_get task_details ''title'' (JStr []))
               (dict_get task_details ''description'' (JStr []))
               (dict_get task_details ''category'' (JStr ''Uncategorized''))
               (JStr ''No daily context available.'') user_preferences current_task_load)
                400]
        else [])"
    by (simp only: reqs call_llm_requests)
  show ?thesis
    by (rule conjI [OF summary conjI [OF run sent]])
qed

text \<open>
  C5, as claimed: the summariser always yields a summary text. It yields whatever the
  answer holds under \<^verbatim>\<open>summary\<close>: for the answer \<^verbatim>\<open>{"summary": null}\<close> the summary is
  \<^verbatim>\<open>None\<close>, not a text. Line 131 looks the key up and checks nothing.
\<close>

theorem summary_not_text_counterexample:
  "fst (context_summary (sample_env (\<lambda>raw. Inr (JObject [(''summary'', JNull)])))
          (answering (''{'' @ dq @ ''summary'' @ dq @ '': null}'')) sample_context io0) = Inr JNull"
  by (simp add: model_defs sample_defs)

text \<open>
  C5, amended: with context entries, when the summary call ends in one of the failures
  that \<^verbatim>\<open>_call_llm\<close> turns into a dict (no client, the unimplemented branch, an exception of
  the backend other than a JSONDecodeError, no choice, no content, a content that is
  not valid JSON), or its answer is an object without the key \<^verbatim>\<open>summary\<close>, the summary is
  the first 200 characters of the combined context followed by \<^verbatim>\<open>...\<close>; when the answer
  is an object with the key, the summary is the value under it. (What happens when the
  backend raises a JSONDecodeError, which is the case of C3, or when the answer is not
  an object, as in \<open>list_summary_answer_raises\<close>, is not part of this statement.)
\<close>

theorem summary_fallback:
  assumes "daily_context_data \<noteq> []"
  shows "((case decoded_answer e self (chat_request ''gpt-3.5-turbo'' (context_summary_prompt (combined_context daily_context_data)) 150) of
            None \<Rightarrow> \<not> backend_decode_error self (chat_request ''gpt-3.5-turbo'' (context_summary_prompt (combined_context daily_context_data)) 150)
          | Some v \<Rightarrow> (case v of JObject d \<Rightarrow> \<not> dict_in ''summary'' d | _ \<Rightarrow> False)) \<longrightarrow>
          fst (context_summary e self daily_context_data s) =
            Inr (JStr (take 200 (combined_context daily_context_data) @ ''...''))) \<and>
         (\<forall>d. decoded_answer e self (chat_request ''gpt-3.5-turbo'' (context_summary_prompt (combined_context daily_context_data)) 150) = Some (JObject d) \<longrightarrow>
          fst (context_summary e self daily_context_data s) =
            Inr (dict_get d ''summary'' (JStr (take 200 (combined_context daily_context_data) @ ''...''))))"
proof -
  have object: "fst (context_summary e self daily_context_data s) =
            Inr (dict_get d ''summary'' (JStr (take 200 (combined_context daily_context_data) @ ''...'')))"
    if "decoded_answer e self (chat_request ''gpt-3.5-turbo'' (context_summary_prompt (combined_context daily_context_data)) 150) = Some (JObject d)" for d
    using context_summary_object [OF assms] call_llm_decoded [OF that] by simp
  have failed: "fst (context_summary e self daily_context_data s) =
            Inr (JStr (take 200 (combined_context daily_context_data) @ ''...''))"
    if none: "decoded_answer e self (chat_request ''gpt-3.5-turbo'' (context_summary_prompt (combined_context daily_context_data)) 150) = None"
      and handled: "\<not> backend_decode_error self (chat_request ''gpt-3.5-turbo'' (context_summary_prompt (combined_context daily_context_data)) 150)"
  proof -
    obtain d where "fst (call_llm e self (context_summary_prompt (combined_context daily_context_data)) ''gpt-3.5-turbo'' 150 s) = Inr (JObject d)"
      and "\<not> dict_in ''summary'' d"
      using call_llm_failed [OF none handled] by blast
    then show ?thesis
      using context_summary_object [OF assms, of e self s d]
      by (simp add: dict_get_def dict_in_def split: option.splits)
  qed
  have missing: "fst (context_summary e self daily_context_data s) =
            Inr (JStr (take 200 (combined_context daily_context_data) @ ''...''))"
    if "decoded_answer e self (chat_request ''gpt-3.5-turbo'' (context_summary_prompt (combined_context daily_context_data)) 150) = Some (JObject d)"
      and "\<not> dict_in ''summary'' d" for d
    using object [OF that(1)] that(2) by (simp add: dict_get_def dict_in_def split: option.splits)
  show ?thesis
    using object failed missing by (auto split: option.splits json.splits)
qed

theorem summary_fallback_witness:
  "fst (context_summary (sample_env (\<lambda>raw. Inr (JObject []))) outage sample_context io0) =
     Inr (JStr ''Source: email: Rent is due\<newline>Source: note: call the landlord...'') \<and>
   fst (context_summary (sample_env (\<lambda>raw. Inr (JObject [(''summary'', JStr ''Rent is due today'')])))
          (answering ''{}'') sample_context io0) =
     Inr (JStr ''Rent is due today'')"
proof -
  have ne: "sample_context \<noteq> []"
    by (simp add: sample_context_def)
  have failed: "(case decoded_answer (sample_env (\<lambda>raw. Inr (JObject []))) outage
                (chat_request ''gpt-3.5-turbo'' (context_summary_prompt (combined_context sample_context)) 150) of
            None \<Rightarrow> \<not> backend_decode_error outage
                (chat_request ''gpt-3.5-turbo'' (context_summary_prompt (combined_context sample_context)) 150)
          | Some v \<Rightarrow> (case v of JObject d \<Rightarrow> \<not> dict_in ''summary'' d | _ \<Rightarrow> False))"
    by (simp add: decoded_answer_def backend_decode_error_def outage_def)
  have a: "fst (context_summary (sample_env (\<lambda>raw. Inr (JObject []))) outage sample_context io0) =
     Inr (JStr ''Source: email: Rent is due\<newline>Source: note: call the landlord...'')"
    using summary_fallback [OF ne, where e = "sample_env (\<lambda>raw. Inr (JObject []))" and self = outage and s = io0,
        THEN conjunct1, THEN mp, OF failed]
    by (simp add: combined_context_sample)
  have answered: "decoded_answer (sample_env (\<lambda>raw. Inr (JObject [(''summary'', JStr ''Rent is due today'')])))
          (answering ''{}'')
          (chat_request ''gpt-3.5-turbo'' (context_summary_prompt (combined_context sample_context)) 150) =
        Some (JObject [(''summary'', JStr ''Rent is due today'')])"
    by (simp add: decoded_answer_def answering_def sample_env_def)
  have b: "fst (context_summary (sample_env (\<lambda>raw. Inr (JObject [(''summary'', JStr ''Rent is due today'')])))
          (answering ''{}'') sample_context io0) =
     Inr (JStr ''Rent is due today'')"
    using summary_fallback [OF ne, where e = "sample_env (\<lambda>raw. Inr (JObject [(''summary'', JStr ''Rent is due today'')]))"
        and self = "answering ''{}''" and s = io0, THEN conjunct2, THEN spec, THEN mp, OF answered]
    by (simp add: dict_get_def)
  show ?thesis
    by (rule conjI [OF a b])
qed

text \<open>
  C6, as claimed: each line of the combined context is exactly
  \<^verbatim>\<open><source_type>: <content>\<close>. It is not: line 125 puts \<^verbatim>\<open>Source: \<close> in front.
\<close>

theorem context_line_counterexample:
  "combined_context [\<lparr>content = ''Rent is due'', source_type = ''email''\<rparr>] = ''Source: email: Rent is due'' \<and>
   combined_context [\<lparr>content = ''Rent is due'', source_type = ''email''\<rparr>] \<noteq> ''email: Rent is due''"
  by (simp add: combined_context_def entry_line_def)

text \<open>
  C6, amended: for a non-empty context the combined context is the entries' lines
  \<^verbatim>\<open>Source: <source_type>: <content>\<close> joined by newlines in input order (when no field
  holds a newline, its lines are exactly these, one per entry); the summary is one
  \<^verbatim>\<open>_call_llm\<close> on the prompt that embeds it, and that call sends exactly one request, with
  \<^verbatim>\<open>max_tokens\<close> 150, when the adapter has a client and is not the unimplemented variant
  (no request otherwise).
\<close>

theorem summary_call_lines:
  assumes "daily_context_data \<noteq> []"
  shows "combined_context daily_context_data =
           join ''\<newline>'' (map (\<lambda>c. ''Source: '' @ source_type c @ '': '' @ content c) daily_context_data) \<and>
         ((\<forall>c \<in> set daily_context_data. CHR ''\<newline>'' \<notin> set (source_type c) \<and> CHR ''\<newline>'' \<notin> set (content c)) \<longrightarrow>
            split_lines (combined_context daily_context_data) =
              map (\<lambda>c. ''Source: '' @ source_type c @ '': '' @ content c) daily_context_data) \<and>
         context_summary e self daily_context_data s =
           (case call_llm e self (context_summary_prompt (combined_context daily_context_data)) ''gpt-3.5-turbo'' 150 s of
              (Inl err, s1) \<Rightarrow> (Inl err, s1)
            | (Inr summary_response, s1) \<Rightarrow>
                (py_get summary_response ''summary'' (JStr (take 200 (combined_context daily_context_data) @ ''...'')), s1)) \<and>
         requests (snd (context_summary e self daily_context_data s)) =
           requests s @
             (if client self \<noteq> None \<and> api_choice self \<noteq> claude
              then [\<lparr>model = ''gpt-3.5-turbo'',
                     messages =
                       [(''system'', ''You are a smart task management assistant. Provide responses in JSON format.''),
                        (''user'', context_summary_prompt (combined_context daily_context_data))],
                     response_format = ''json_object'',
                     temperature = 7 / 10,
                     max_tokens = 150\<rparr>]
              else [])"
proof -
  have lines: "combined_context daily_context_data =
           join ''\<newline>'' (map (\<lambda>c. ''Source: '' @ source_type c @ '': '' @ content c) daily_context_data)"
    by (simp add: combined_context_def entry_line_def [abs_def])
  have split: "split_lines (combined_context daily_context_data) =
              map (\<lambda>c. ''Source: '' @ source_type c @ '': '' @ content c) daily_context_data"
    if "\<forall>c \<in> set daily_context_data. CHR ''\<newline>'' \<notin> set (source_type c) \<and> CHR ''\<newline>'' \<notin> set (content c)"
  proof -
    have "\<forall>l \<in> set (map entry_line daily_context_data). CHR ''\<newline>'' \<notin> set l"
      using that by (auto simp: entry_line_no_newline)
    then have "split_lines (join ''\<newline>'' (map entry_line daily_context_data)) = map entry_line daily_context_data"
      using assms split_lines_join [of "map entry_line daily_context_data"] by simp
    then show ?thesis
      by (simp add: combined_context_def entry_line_def [abs_def])
  qed
  have run: "context_summary e self daily_context_data s =
           (case call_llm e self (context_summary_prompt (combined_context daily_context_data)) ''gpt-3.5-turbo'' 150 s of
              (Inl err, s1) \<Rightarrow> (Inl err, s1)
            | (Inr summary_response, s1) \<Rightarrow>
                (py_get summary_response ''summary'' (JStr (take 200 (combined_context daily_context_data) @ ''...'')), s1))"
    using assms by (simp add: context_summary_def Let_def)
  have reqs: "requests (snd (context_summary e self daily_context_data s)) =
           requests s @
             (if client self \<noteq> None \<and> api_choice self \<noteq> claude
              then [chat_request ''gpt-3.5-turbo'' (context_summary_prompt (combined_context daily_context_data)) 150]
              else [])"
    using assms by (simp add: context_summary_state call_llm_requests)
  show ?thesis
    using lines split run reqs by (simp add: chat_request_def)
qed

theorem summary_call_lines_witness:
  "split_lines (combined_context sample_context) =
     [''Source: email: Rent is due'', ''Source: note: call the landlord''] \<and>
   map max_tokens (requests (snd (context_summary (sample_env (\<lambda>raw. Inr (JObject []))) outage sample_context io0))) = [150]"
proof -
  have ne: "sample_context \<noteq> []"
    by (simp add: sample_context_def)
  note th = summary_call_lines [OF ne, of "sample_env (\<lambda>raw. Inr (JObject []))" outage io0]
  have a: "split_lines (combined_context sample_context) =
     [''Source: email: Rent is due'', ''Source: note: call the landlord'']"
    using th [THEN conjunct2, THEN conjunct1] by (simp add: sample_context_def)
  have b: "map max_tokens (requests (snd (context_summary (sample_env (\<lambda>raw. Inr (JObject []))) outage sample_context io0))) = [150]"
    using th [THEN conjunct2, THEN conjunct2, THEN conjunct2] by (simp add: outage_def io0_def)
  show ?thesis
    using a b by (rule conjI)
qed

text \<open>
  C7. Whenever \<^verbatim>\<open>get_task_suggestions\<close> returns a record, its \<^verbatim>\<open>recommendations\<close> is a list:
  the LLM layer's list when it gave one, the empty list when it gave anything else (a
  string, say) or nothing.
\<close>

theorem recommendations_is_list:
  assumes "fst (get_task_suggestions e self task_details daily_context_data user_preferences current_task_load s) = Inr r"
  shows "\<exists>d. fst (suggestion_call e self task_details daily_context_data user_preferences current_task_load s) = Inr (JObject d) \<and>
           map_of r ''recommendations'' =
           Some (case map_of d ''recommendations'' of
                   None \<Rightarrow> Json (JList [])
                 | Some v \<Rightarrow> (case v of JList xs \<Rightarrow> Json (JList xs) | _ \<Rightarrow> Json (JList [])))"
proof -
  from assms obtain d sug1 sug2 sug3 sug4 s2 s3 where steps:
    "fst (suggestion_call e self task_details daily_context_data user_preferences current_task_load s) = Inr (JObject d)"
    "fix_priority_score e (lift d) = Inr sug1"
    "parse_deadline e sug1 s2 = (Inr sug2, s3)"
    "set_default_deadline e sug2 = Inr sug3"
    "fix_recommendations sug3 = Inr sug4"
    "r = suggestion_record (dict_get task_details ''category'' (JStr ''Uncategorized''))
           (dict_get task_details ''description'' (JStr [])) sug4"
    by (rule run_steps)
  have "map_of sug3 ''recommendations'' = map_option Json (map_of d ''recommendations'')"
    using set_default_deadline_frame [OF steps(4), of "''recommendations''"]
      parse_deadline_frame [OF steps(3), of "''recommendations''"]
      fix_priority_score_frame [OF steps(2), of "''recommendations''"]
    by (simp add: map_of_lift)
  then have "map_of r ''recommendations'' =
           Some (case map_of d ''recommendations'' of
                   None \<Rightarrow> Json (JList [])
                 | Some v \<Rightarrow> (case v of JList xs \<Rightarrow> Json (JList xs) | _ \<Rightarrow> Json (JList [])))"
    using fix_recommendations_value [OF steps(5)] steps(6)
    by (auto simp: suggestion_record_def dict_get_def is_list_def split: option.splits json.splits)
  with steps(1) show ?thesis
    by (intro exI [of _ d] conjI)
qed

theorem recommendations_is_list_witness:
  "\<exists>d. fst (suggestion_call (sample_env (\<lambda>raw. Inr (JObject [(''recommendations'', JStr ''do it now'')])))
                (answering ''{}'') sample_task [] [] 0 io0) = Inr (JObject d) \<and>
       map_of [(''priority_score'', Json (JInt 50)),
           (''deadline'', Datetime \<lparr>year = 2025, month = 3, day = 2, hour = 17, minute = 0, second = 0, microsecond = 0\<rparr>),
           (''suggested_category'', Json JNull),
           (''enhanced_description'', Json (JStr ''before Friday'')),
           (''recommendations'', Json (JList [])),
           (''ai_raw_response'',
              Dict [(''recommendations'', Json (JList [])),
                    (''deadline'', Datetime \<lparr>year = 2025, month = 3, day = 2, hour = 17, minute = 0, second = 0, microsecond = 0\<rparr>)])]
          ''recommendations'' =
       Some (case map_of d ''recommendations'' of
               None \<Rightarrow> Json (JList [])
             | Some v \<Rightarrow> (case v of JList xs \<Rightarrow> Json (JList xs) | _ \<Rightarrow> Json (JList [])))"
proof -
  have run: "fst (get_task_suggestions (sample_env (\<lambda>raw. Inr (JObject [(''recommendations'', JStr ''do it now'')])))
                (answering ''{}'') sample_task [] [] 0 io0) =
     Inr [(''priority_score'', Json (JInt 50)),
           (''deadline'', Datetime \<lparr>year = 2025, month = 3, day = 2, hour = 17, minute = 0, second = 0, microsecond = 0\<rparr>),
           (''suggested_category'', Json JNull),
           (''enhanced_description'', Json (JStr ''before Friday'')),
           (''recommendations'', Json (JList [])),
           (''ai_raw_response'',
              Dict [(''recommendations'', Json (JList [])),
                    (''deadline'', Datetime \<lparr>year = 2025, month = 3, day = 2, hour = 17, minute = 0, second = 0, microsecond = 0\<rparr>)])]"
    using default_deadline_sample by (simp add: model_defs sample_defs)
  show ?thesis
    by (rule recommendations_is_list [OF run])
qed

text \<open>
  C8, as claimed: for a content that is not valid JSON, \<^verbatim>\<open>_call_llm\<close> returns a failure value
  that carries the raw text and the decode error message. The returned dict holds the
  message only; no value of it is the raw text.
\<close>

theorem decode_failure_counterexample:
  "fst (call_llm (sample_env (\<lambda>raw. Inl ''Expecting value: line 1 column 1 (char 0)''))
          (answering ''not json'') ''Summarize'' ''gpt-3.5-turbo'' 500 io0) =
     Inr (JObject [(''error'', JStr ''JSON decoding failed''),
                   (''details'', JStr ''Expecting value: line 1 column 1 (char 0)'')]) \<and>
   JStr ''not json'' \<notin> set (map snd [(''error'', JStr ''JSON decoding failed''),
                   (''details'', JStr ''Expecting value: line 1 column 1 (char 0)'')])"
  by (simp add: call_llm_def sample_defs Let_def)

text \<open>
  C8, amended: \<^verbatim>\<open>_call_llm\<close> does not raise on such a content; it returns
  \<^verbatim>\<open>{"error": "JSON decoding failed", "details": <message>}\<close>, and the raw text goes, with
  the message, into the line it prints.
\<close>

theorem decode_failure_result:
  assumes "client self = Some create"
    and "api_choice self \<noteq> claude"
    and "create (chat_request model_name prompt max_toks) = Completion (Some raw # rest)"
    and "json_loads e raw = Inl m"
  shows "call_llm e self prompt model_name max_toks s =
           (Inr (JObject [(''error'', JStr ''JSON decoding failed''), (''details'', JStr m)]),
            s\<lparr>requests := requests s @ [chat_request model_name prompt max_toks],
              stdout := stdout s @ [''Error decoding JSON from LLM response: '' @ m @ ''. Raw content: '' @ raw]\<rparr>)"
  using assms
  by (cases "api_choice self") (simp_all add: call_llm_def py_print_def Let_def)

theorem decode_failure_result_witness:
  "call_llm (sample_env (\<lambda>raw. Inl ''Expecting value: line 1 column 1 (char 0)''))
          (answering ''not json'') ''Summarize'' ''gpt-3.5-turbo'' 500 io0 =
     (Inr (JObject [(''error'', JStr ''JSON decoding failed''),
                    (''details'', JStr ''Expecting value: line 1 column 1 (char 0)'')]),
      \<lparr>stdout = [''Error decoding JSON from LLM response: Expecting value: line 1 column 1 (char 0). Raw content: not json''],
       requests = [chat_request ''gpt-3.5-turbo'' ''Summarize'' 500]\<rparr>)"
proof -
  have a: "client (answering ''not json'') = Some (\<lambda>req. Completion [Some ''not json''])"
    by (simp add: answering_def)
  have b: "api_choice (answering ''not json'') \<noteq> claude"
    by (simp add: answering_def)
  have c: "(\<lambda>req. Completion [Some ''not json'']) (chat_request ''gpt-3.5-turbo'' ''Summarize'' 500) =
             Completion (Some ''not json'' # [])"
    by simp
  have d: "json_loads (sample_env (\<lambda>raw. Inl ''Expecting value: line 1 column 1 (char 0)'')) ''not json'' =
             Inl ''Expecting value: line 1 column 1 (char 0)''"
    by (simp add: sample_env_def)
  show ?thesis
    using decode_failure_result [OF a b c d, where s = io0] by (simp add: io0_def)
qed

text \<open>
  C9, as claimed: the call through the \<^verbatim>\<open>claude\<close> variant returns a failure value that marks
  the backend as unimplemented. It returns the empty dict, with no \<^verbatim>\<open>error\<close> key, which is
  also what a backend answering \<^verbatim>\<open>{}\<close> gives.
\<close>

theorem claude_call_counterexample:
  "fst (init (sample_env (\<lambda>raw. Inr (JObject []))) ''claude'' io0) = Inr \<lparr>api_choice = claude, client = None\<rparr> \<and>
   fst (call_llm (sample_env (\<lambda>raw. Inr (JObject []))) \<lparr>api_choice = claude, client = None\<rparr> ''Summarize'' ''gpt-3.5-turbo'' 500 io0) = Inr (JObject []) \<and>
   \<not> dict_in ''error'' ([] :: json dict) \<and>
   fst (call_llm (sample_env (\<lambda>raw. Inr (JObject []))) (answering ''{}'') ''Summarize'' ''gpt-3.5-turbo'' 500 io0) = Inr (JObject [])"
  by (simp add: init_def api_of_def initialize_llm_client_def call_llm_def dict_in_def sample_defs Let_def)

text \<open>
  C9, amended: an adapter constructed with the choice \<^verbatim>\<open>claude\<close> has no client; every call
  through it sends no request, prints \<^verbatim>\<open>LLM client not initialized. Cannot make API call.\<close>
  and returns the empty dict.
\<close>

theorem claude_call_result:
  assumes "init e ''claude'' s0 = (Inr self, s1)"
  shows "api_choice self = claude \<and> client self = None \<and>
         call_llm e self prompt model_name max_toks s =
           (Inr (JObject []), s\<lparr>stdout := stdout s @ [''LLM client not initialized. Cannot make API call.'']\<rparr>)"
  using assms
  by (auto simp: init_def api_of_def initialize_llm_client_def call_llm_def py_print_def Let_def)

theorem claude_call_result_witness:
  "call_llm (sample_env (\<lambda>raw. Inr (JObject []))) \<lparr>api_choice = claude, client = None\<rparr> ''Summarize'' ''gpt-3.5-turbo'' 500 io0 =
     (Inr (JObject []), \<lparr>stdout = [''LLM client not initialized. Cannot make API call.''], requests = []\<rparr>)"
proof -
  have a: "init (sample_env (\<lambda>raw. Inr (JObject []))) ''claude'' io0 =
     (Inr \<lparr>api_choice = claude, client = None\<rparr>, snd (init (sample_env (\<lambda>raw. Inr (JObject []))) ''claude'' io0))"
    by (simp add: init_def api_of_def initialize_llm_client_def Let_def)
  show ?thesis
    using claude_call_result [OF a, where s = io0 and prompt = "''Summarize''" and model_name = "''gpt-3.5-turbo''" and max_toks = 500]
    by (simp add: io0_def)
qed

text \<open>
  C10. A mapping returned by \<^verbatim>\<open>get_task_suggestions\<close> has exactly the six keys
  \<^verbatim>\<open>priority_score\<close>, \<^verbatim>\<open>deadline\<close>, \<^verbatim>\<open>suggested_category\<close>, \<^verbatim>\<open>enhanced_description\<close>,
  \<^verbatim>\<open>recommendations\<close> and \<^verbatim>\<open>ai_raw_response\<close>; an adapter without a client still gets one;
  and the values the hook stores are the mapping's own, never the fallbacks of its
  \<^verbatim>\<open>.get\<close> lookups.
\<close>

theorem returned_keys:
  "(fst (get_task_suggestions e self task_details daily_context_data user_preferences current_task_load s) = Inr r \<longrightarrow>
      keys r = [''priority_score'', ''deadline'', ''suggested_category'', ''enhanced_description'',
                ''recommendations'', ''ai_raw_response'']) \<and>
   (client self = None \<longrightarrow>
      (\<exists>r'. fst (get_task_suggestions e self task_details daily_context_data user_preferences current_task_load s) = Inr r')) \<and>
   (fst (perform_create e self t daily_context_data current_task_load s) = Inr t' \<longrightarrow>
      (\<exists>ai. ai_suggestions t' = Some ai \<and>
            map_of ai ''priority_score'' = Some (priority_score t') \<and>
            map_of ai ''deadline'' = Some (deadline t')))"
proof -
  have shape: "keys r = [''priority_score'', ''deadline'', ''suggested_category'', ''enhanced_description'',
                ''recommendations'', ''ai_raw_response'']"
    if "fst (get_task_suggestions e self task_details daily_context_data user_preferences current_task_load s) = Inr r"
    using that by (elim run_steps) (simp add: suggestion_record_def keys_def)
  have uninit: "\<exists>r'. fst (get_task_suggestions e self task_details daily_context_data user_preferences current_task_load s) = Inr r'"
    if none: "client self = None"
  proof -
    have call: "fst (call_llm e self p m n s') = Inr (JObject [])" for p m n s'
      using none by (simp add: call_llm_def)
    obtain summ s1 where summary: "context_summary e self daily_context_data s = (Inr summ, s1)"
    proof (cases "daily_context_data = []")
      case True
      then show ?thesis
        using that by (simp add: context_summary_def)
    next
      case False
      then have "\<exists>summ. fst (context_summary e self daily_context_data s) = Inr summ"
        using context_summary_object [OF False, of e self s "[]"] call by simp
      then show ?thesis
        using that by (cases "context_summary e self daily_context_data s") auto
    qed
    obtain x s2 where pair: "suggestion_call e self task_details daily_context_data user_preferences current_task_load s = (x, s2)"
      by (cases "suggestion_call e self task_details daily_context_data user_preferences current_task_load s")
    have "call_llm e self
       (suggestion_prompt e
          (dict_get task_details ''title'' (JStr []))
          (dict_get task_details ''description'' (JStr []))
          (dict_get task_details ''category'' (JStr ''Uncategorized''))
          summ user_preferences current_task_load)
       ''gpt-4o-mini'' 400 s1 = (x, s2)"
      using pair suggestion_call_after_summary [OF summary, of task_details user_preferences current_task_load]
      by simp
    then have "x = fst (call_llm e self
       (suggestion_prompt e
          (dict_get task_details ''title'' (JStr []))
          (dict_get task_details ''description'' (JStr []))
          (dict_get task_details ''category'' (JStr ''Uncategorized''))
          summ user_preferences current_task_load)
       ''gpt-4o-mini'' 400 s1)"
      by simp
    then have "x = Inr (JObject [])"
      by (simp add: call)
    then show ?thesis
      using pair post_process_empty [of e _ _ s2]
      by (simp add: get_task_suggestions_def)
  qed
  have hook: "\<exists>ai. ai_suggestions t' = Some ai \<and>
            map_of ai ''priority_score'' = Some (priority_score t') \<and>
            map_of ai ''deadline'' = Some (deadline t')"
    if created: "fst (perform_create e self t daily_context_data current_task_load s) = Inr t'"
  proof -
    obtain x s1 where pair: "get_task_suggestions e self (task_details_of t) daily_context_data [] current_task_load s = (x, s1)"
      by (cases "get_task_suggestions e self (task_details_of t) daily_context_data [] current_task_load s")
    obtain ai where run: "get_task_suggestions e self (task_details_of t) daily_context_data [] current_task_load s = (Inr ai, s1)"
      and t': "t' = t\<lparr>priority_score := dict_get ai ''priority_score'' (Json (JInt 0)),
                  deadline := dict_get ai ''deadline'' (Json JNull),
                  ai_suggestions := Some ai\<rparr>"
      using created pair by (cases x) (auto simp: perform_create_def)
    from run have "fst (get_task_suggestions e self (task_details_of t) daily_context_data [] current_task_load s) = Inr ai"
      by simp
    then have "map_of ai ''priority_score'' \<noteq> None \<and> map_of ai ''deadline'' \<noteq> None"
      by (elim run_steps) (simp add: suggestion_record_def)
    then show ?thesis
      using t' by (auto simp: dict_get_def)
  qed
  show ?thesis
    using shape uninit hook by blast
qed

theorem returned_keys_witness:
  "keys [(''priority_score'', Json (JInt 50)),
         (''deadline'', Datetime \<lparr>year = 2025, month = 3, day = 2, hour = 17, minute = 0, second = 0, microsecond = 0\<rparr>),
         (''suggested_category'', Json JNull),
         (''enhanced_description'', Json (JStr ''before Friday'')),
         (''recommendations'', Json (JList [])),
         (''ai_raw_response'',
            Dict [(''deadline'', Datetime \<lparr>year = 2025, month = 3, day = 2, hour = 17, minute = 0, second = 0, microsecond = 0\<rparr>)])] =
     [''priority_score'', ''deadline'', ''suggested_category'', ''enhanced_description'',
      ''recommendations'', ''ai_raw_response''] \<and>
   (\<exists>r'. fst (get_task_suggestions (sample_env (\<lambda>raw. Inr (JObject []))) \<lparr>api_choice = claude, client = None\<rparr>
                 sample_task sample_context [] 4 io0) = Inr r') \<and>
   fst (perform_create (sample_env (\<lambda>raw. Inr (JObject []))) \<lparr>api_choice = claude, client = None\<rparr>
          \<lparr>title = ''Pay rent'', description = Some ''before Friday'', category = None,
            priority_score = Json (JInt 0), deadline = Json JNull, ai_suggestions = None\<rparr>
          sample_context 4 io0) =
     Inr \<lparr>title = ''Pay rent'', description = Some ''before Friday'', category = None,
          priority_score = Json (JInt 50),
          deadline = Datetime \<lparr>year = 2025, month = 3, day = 2, hour = 17, minute = 0, second = 0, microsecond = 0\<rparr>,
          ai_suggestions =
            Some [(''priority_score'', Json (JInt 50)),
         (''deadline'', Datetime \<lparr>year = 2025, month = 3, day = 2, hour = 17, minute = 0, second = 0, microsecond = 0\<rparr>),
         (''suggested_category'', Json JNull),
         (''enhanced_description'', Json (JStr ''before Friday'')),
         (''recommendations'', Json (JList [])),
         (''ai_raw_response'',
            Dict [(''deadline'', Datetime \<lparr>year = 2025, month = 3, day = 2, hour = 17, minute = 0, second = 0, microsecond = 0\<rparr>)])]\<rparr> \<and>
   map_of [(''priority_score'', Json (JInt 50)),
         (''deadline'', Datetime \<lparr>year = 2025, month = 3, day = 2, hour = 17, minute = 0, second = 0, microsecond = 0\<rparr>),
         (''suggested_category'', Json JNull),
         (''enhanced_description'', Json (JStr ''before Friday'')),
         (''recommendations'', Json (JList [])),
         (''ai_raw_response'',
            Dict [(''deadline'', Datetime \<lparr>year = 2025, month = 3, day = 2, hour = 17, minute = 0, second = 0, microsecond = 0\<rparr>)])] ''priority_score'' = Some (Json (JInt 50))"
proof -
  let ?r = "[(''priority_score'', Json (JInt 50)),
         (''deadline'', Datetime \<lparr>year = 2025, month = 3, day = 2, hour = 17, minute = 0, second = 0, microsecond = 0\<rparr>),
         (''suggested_category'', Json JNull),
         (''enhanced_description'', Json (JStr ''before Friday'')),
         (''recommendations'', Json (JList [])),
         (''ai_raw_response'',
            Dict [(''deadline'', Datetime \<lparr>year = 2025, month = 3, day = 2, hour = 17, minute = 0, second = 0, microsecond = 0\<rparr>)])]"
  let ?t = "\<lparr>title = ''Pay rent'', description = Some ''before Friday'', category = None,
            priority_score = Json (JInt 0), deadline = Json JNull, ai_suggestions = None\<rparr>"
  let ?t' = "\<lparr>title = ''Pay rent'', description = Some ''before Friday'', category = None,
            priority_score = Json (JInt 50),
            deadline = Datetime \<lparr>year = 2025, month = 3, day = 2, hour = 17, minute = 0, second = 0, microsecond = 0\<rparr>,
            ai_suggestions = Some ?r\<rparr>"
  have run: "fst (get_task_suggestions (sample_env (\<lambda>raw. Inr (JObject []))) \<lparr>api_choice = claude, client = None\<rparr>
                 sample_task sample_context [] 4 io0) = Inr ?r"
    using default_deadline_sample by (simp add: model_defs sample_defs)
  have none: "client \<lparr>api_choice = claude, client = None\<rparr> = None"
    by simp
  have created: "fst (perform_create (sample_env (\<lambda>raw. Inr (JObject []))) \<lparr>api_choice = claude, client = None\<rparr>
                   ?t sample_context 4 io0) = Inr ?t'"
    using default_deadline_sample
    by (simp add: perform_create_def task_details_of_def opt_str_def model_defs sample_defs)
  note th = returned_keys [of "sample_env (\<lambda>raw. Inr (JObject []))" "\<lparr>api_choice = claude, client = None\<rparr>"
      sample_task sample_context "[]" 4 io0 ?r ?t ?t']
  have a: "keys ?r = [''priority_score'', ''deadline'', ''suggested_category'', ''enhanced_description'',
      ''recommendations'', ''ai_raw_response'']"
    using th [THEN conjunct1, THEN mp, OF run] by simp
  have b: "\<exists>r'. fst (get_task_suggestions (sample_env (\<lambda>raw. Inr (JObject []))) \<lparr>api_choice = claude, client = None\<rparr>
                 sample_task sample_context [] 4 io0) = Inr r'"
    using th [THEN conjunct2, THEN conjunct1, THEN mp, OF none] by simp
  from th [THEN conjunct2, THEN conjunct2, THEN mp, OF created]
  obtain ai where h: "ai_suggestions ?t' = Some ai \<and>
          map_of ai ''priority_score'' = Some (priority_score ?t') \<and>
          map_of ai ''deadline'' = Some (deadline ?t')" ..
  from h have same: "ai = ?r"
    by simp
  from h have "map_of ai ''priority_score'' = Some (priority_score ?t')"
    by (elim conjE)
  then have c: "map_of ?r ''priority_score'' = Some (Json (JInt 50))"
    unfolding same by simp
  show ?thesis
    by (rule conjI [OF a conjI [OF b conjI [OF created c]]])
qed

end
